theory Spec2Isabelle
  imports Main "HOL-Library.Char_ord" "HOL-Library.List_Lexorder"
begin

section \<open>contentchef-go: a shallow embedding of the client library\<close>

text \<open>
  Go strings are byte sequences; they are modelled as \<open>string\<close> (a list of 8-bit
  characters), so \<open>length\<close> is Go's \<open>len\<close>. Functions of the Go standard library and of
  go-querystring that the repository calls are modelled next to the code that uses them and
  are marked as library models; the repository's own functions keep their names.
\<close>

subsection \<open>Package strings\<close>

text \<open>
  Library model. \<open>strings.TrimSpace\<close> removes leading and trailing white space. The model
  covers the ASCII white space of the package (tab, line feed, vertical tab, form feed,
  carriage return, space); the Unicode white space that takes several bytes in UTF-8 is
  left in place.
\<close>

definition isSpace :: "char \<Rightarrow> bool" where
  "isSpace c = (c \<in> set [CHR 0x09, CHR 0x0A, CHR 0x0B, CHR 0x0C, CHR 0x0D, CHR 0x20])"

definition TrimSpace :: "string \<Rightarrow> string" where
  "TrimSpace s = rev (dropWhile isSpace (rev (dropWhile isSpace s)))"

text \<open>Library model. \<open>strings.Join(elems, sep)\<close>.\<close>

fun Join :: "string list \<Rightarrow> string \<Rightarrow> string" where
  "Join [] sep = []"
| "Join [e] sep = e"
| "Join (e # es) sep = e @ sep @ Join es sep"

subsection \<open>Sort specifications (channel.go)\<close>

record SortingField =
  FieldName :: string
  Ascending :: bool

type_synonym Sorting = "SortingField list"

text \<open>
  \<open>serializeSorting\<close> allocates \<open>values\<close> with one (empty) slot per entry and walks the
  entries with their index: an entry whose name has length 0 is passed over by
  \<open>continue\<close>, any other entry writes sign and trimmed name into its own slot. All slots
  are joined at the end.
\<close>

fun serializeSorting_loop :: "nat \<Rightarrow> Sorting \<Rightarrow> string list \<Rightarrow> string list" where
  "serializeSorting_loop i [] values = values"
| "serializeSorting_loop i (field # rest) values =
     (if length (FieldName field) = 0 then serializeSorting_loop (Suc i) rest values
      else
        let sorter = (if Ascending field then ''+'' else ''-'')
        in serializeSorting_loop (Suc i) rest
             (values[i := sorter @ TrimSpace (FieldName field)]))"

definition serializeSorting :: "Sorting \<Rightarrow> string" where
  "serializeSorting s = Join (serializeSorting_loop 0 s (replicate (length s) [])) '',''"

text \<open>The slot an entry ends up with.\<close>

definition sortingSlot :: "SortingField \<Rightarrow> string" where
  "sortingSlot field =
     (if length (FieldName field) = 0 then []
      else (if Ascending field then ''+'' else ''-'') @ TrimSpace (FieldName field))"

subsection \<open>Package encoding/json: reading a document\<close>

text \<open>
  Library model. A JSON document is read in two steps, as the grammar of RFC 8259 has it:
  the text is cut into tokens (punctuation, strings with their escapes decoded, numbers,
  the three literals), and the tokens are assembled into a value by a machine with a stack
  of the containers that are still open. Its states are those of the library's scanner.
  \<open>json_parse\<close> returns \<open>None\<close> exactly where the library reports a syntax error: on an
  empty text, on text that is not one value, on anything but white space after the value.
  Numbers are kept as their text. Inside a string, every byte that does not begin a
  well-formed UTF-8 sequence is replaced by U+FFFD, as \<open>unquote\<close> does, and a text that
  opens more than \<open>maxNestingDepth\<close> containers inside one another is a syntax error, as in
  the scanner's \<open>pushParseState\<close>.
\<close>

definition byte :: "char \<Rightarrow> nat" where
  "byte c = of_char c"

definition isDigit :: "char \<Rightarrow> bool" where
  "isDigit c = (48 \<le> byte c \<and> byte c \<le> 57)"

definition hexval :: "char \<Rightarrow> nat option" where
  "hexval c =
     (if isDigit c then Some (byte c - 48)
      else if 97 \<le> byte c \<and> byte c \<le> 102 then Some (byte c - 87)
      else if 65 \<le> byte c \<and> byte c \<le> 70 then Some (byte c - 55)
      else None)"

datatype json =
    JNull
  | JBool bool
  | JNumber string
  | JString string
  | JArray "json list"
  | JObject "(string \<times> json) list"

datatype token =
    TLBrace | TRBrace | TLBracket | TRBracket | TColon | TComma
  | TString string | TNumber string | TTrue | TFalse | TNull

definition isJSONSpace :: "char \<Rightarrow> bool" where
  "isJSONSpace c = (c \<in> set [CHR 0x20, CHR 0x09, CHR 0x0D, CHR 0x0A])"

definition EncodeRune :: "nat \<Rightarrow> string" where
  "EncodeRune r =
     (if r < 0x80 then [char_of r]
      else if r < 0x800 then [char_of (0xC0 + r div 64), char_of (0x80 + r mod 64)]
      else if r < 0x10000 then
        [char_of (0xE0 + r div 4096), char_of (0x80 + (r div 64) mod 64), char_of (0x80 + r mod 64)]
      else
        [char_of (0xF0 + r div 262144), char_of (0x80 + (r div 4096) mod 64),
         char_of (0x80 + (r div 64) mod 64), char_of (0x80 + r mod 64)])"

fun getu4 :: "string \<Rightarrow> nat option" where
  "getu4 (c0 # c1 # h1 # h2 # h3 # h4 # rest) =
     (if c0 = CHR 0x5C \<and> c1 = CHR ''u'' then
        (case (hexval h1, hexval h2, hexval h3, hexval h4) of
           (Some a, Some b, Some c, Some d) \<Rightarrow> Some (((a * 16 + b) * 16 + c) * 16 + d)
         | _ \<Rightarrow> None)
      else None)"
| "getu4 _ = None"

definition simpleEscape :: "char \<Rightarrow> char option" where
  "simpleEscape e =
     (if e = CHR 0x22 \<or> e = CHR 0x5C \<or> e = CHR ''/'' then Some e
      else if e = CHR ''b'' then Some (CHR 0x08)
      else if e = CHR ''f'' then Some (CHR 0x0C)
      else if e = CHR ''n'' then Some (CHR 0x0A)
      else if e = CHR ''r'' then Some (CHR 0x0D)
      else if e = CHR ''t'' then Some (CHR 0x09)
      else None)"

text \<open>
  What follows a backslash inside a string: the bytes the escape stands for and the number
  of input bytes it takes (the backslash not counted). \<open>\u\<close> escapes are written out in
  UTF-8; a pair of surrogates is one character, a surrogate on its own is U+FFFD.
\<close>

definition unquoteEscape :: "string \<Rightarrow> (string \<times> nat) option" where
  "unquoteEscape cs =
     (case cs of
        [] \<Rightarrow> None
      | e # es \<Rightarrow>
          if e = CHR ''u'' then
            (case getu4 (CHR 0x5C # cs) of
               None \<Rightarrow> None
             | Some rr \<Rightarrow>
                 if 0xD800 \<le> rr \<and> rr < 0xE000 then
                   (case getu4 (drop 5 cs) of
                      Some rr1 \<Rightarrow>
                        if rr < 0xDC00 \<and> 0xDC00 \<le> rr1 \<and> rr1 < 0xE000 then
                          Some (EncodeRune ((rr - 0xD800) * 1024 + (rr1 - 0xDC00) + 0x10000), 11)
                        else Some (EncodeRune 0xFFFD, 5)
                    | None \<Rightarrow> Some (EncodeRune 0xFFFD, 5))
                 else Some (EncodeRune rr, 5))
          else
            (case simpleEscape e of
               None \<Rightarrow> None
             | Some d \<Rightarrow> Some ([d], 1)))"

text \<open>
  \<open>utf8.DecodeRune\<close>, as far as \<open>unquote\<close> needs it: the number of bytes of the well-formed
  UTF-8 sequence at the head of the text, and 0 where the library returns \<open>RuneError\<close> with
  width 1 (a byte that cannot begin a sequence, a sequence cut short, a continuation byte
  out of its range, which excludes overlong forms, surrogates and values above U+10FFFF).
  Writing the decoded rune back with \<open>EncodeRune\<close> gives the same bytes.
\<close>

definition inRange :: "char \<Rightarrow> nat \<Rightarrow> nat \<Rightarrow> bool" where
  "inRange c lo hi = (lo \<le> byte c \<and> byte c \<le> hi)"

definition DecodeRuneLen :: "string \<Rightarrow> nat" where
  "DecodeRuneLen s =
     (case s of
        [] \<Rightarrow> 0
      | c0 # r \<Rightarrow>
          let b0 = byte c0 in
          if b0 < 0x80 then 1
          else if 0xC2 \<le> b0 \<and> b0 \<le> 0xDF then
            (case r of
               c1 # r1 \<Rightarrow> if inRange c1 0x80 0xBF then 2 else 0
             | _ \<Rightarrow> 0)
          else if 0xE0 \<le> b0 \<and> b0 \<le> 0xEF then
            (case r of
               c1 # c2 # r2 \<Rightarrow>
                 if inRange c1 (if b0 = 0xE0 then 0xA0 else 0x80) (if b0 = 0xED then 0x9F else 0xBF)
                    \<and> inRange c2 0x80 0xBF
                 then 3 else 0
             | _ \<Rightarrow> 0)
          else if 0xF0 \<le> b0 \<and> b0 \<le> 0xF4 then
            (case r of
               c1 # c2 # c3 # r3 \<Rightarrow>
                 if inRange c1 (if b0 = 0xF0 then 0x90 else 0x80) (if b0 = 0xF4 then 0x8F else 0xBF)
                    \<and> inRange c2 0x80 0xBF \<and> inRange c3 0x80 0xBF
                 then 4 else 0
             | _ \<Rightarrow> 0)
          else 0)"

text \<open>What \<open>EncodeRune\<close> writes for \<open>RuneError\<close>, U+FFFD.\<close>

definition replacementBytes :: string where
  "replacementBytes = EncodeRune 0xFFFD"

lemma replacementBytes_code [code]: "replacementBytes = [CHR 0xEF, CHR 0xBF, CHR 0xBD]"
  unfolding replacementBytes_def
  apply (simp add: EncodeRune_def)
  apply (intro conjI; rule of_char_eq_iff [THEN iffD1, where 'a1 = nat]; simp)
  done

fun lex_string :: "string \<Rightarrow> string \<Rightarrow> (string \<times> string) option" where
  "lex_string acc [] = None"
| "lex_string acc (c # cs) =
     (if c = CHR 0x22 then Some (acc, cs)
      else if c = CHR 0x5C then
        (case unquoteEscape cs of
           None \<Rightarrow> None
         | Some (d, n) \<Rightarrow> lex_string (acc @ d) (drop n cs))
      else if byte c < 0x20 then None
      else if byte c < 0x80 then lex_string (acc @ [c]) cs
      else if DecodeRuneLen (c # cs) = 0 then lex_string (acc @ replacementBytes) cs
      else lex_string (acc @ take (DecodeRuneLen (c # cs)) (c # cs)) (drop (DecodeRuneLen (c # cs) - 1) cs))"

definition digits1 :: "string \<Rightarrow> (string \<times> string) option" where
  "digits1 s = (let ds = takeWhile isDigit s in if ds = [] then None else Some (ds, dropWhile isDigit s))"

definition lex_int :: "string \<Rightarrow> (string \<times> string) option" where
  "lex_int s =
     (case s of
        [] \<Rightarrow> None
      | c # cs \<Rightarrow>
          if c = CHR ''0'' then Some ([c], cs)
          else if isDigit c then Some (c # takeWhile isDigit cs, dropWhile isDigit cs)
          else None)"

definition lex_frac :: "string \<Rightarrow> (string \<times> string) option" where
  "lex_frac s =
     (case s of
        c # cs \<Rightarrow>
          if c = CHR ''.'' then
            (case digits1 cs of None \<Rightarrow> None | Some (ds, r) \<Rightarrow> Some (c # ds, r))
          else Some ([], s)
      | [] \<Rightarrow> Some ([], s))"

definition lex_exp :: "string \<Rightarrow> (string \<times> string) option" where
  "lex_exp s =
     (case s of
        c # cs \<Rightarrow>
          if c = CHR ''e'' \<or> c = CHR ''E'' then
            (let (sg, r0) =
                   (case cs of
                      d # ds \<Rightarrow> if d = CHR ''+'' \<or> d = CHR ''-'' then ([d], ds) else ([], cs)
                    | [] \<Rightarrow> ([], cs))
             in case digits1 r0 of None \<Rightarrow> None | Some (ds, r) \<Rightarrow> Some (c # sg @ ds, r))
          else Some ([], s)
      | [] \<Rightarrow> Some ([], s))"

definition lex_number :: "string \<Rightarrow> (string \<times> string) option" where
  "lex_number s =
     (let (sg, s0) =
            (case s of
               c # cs \<Rightarrow> if c = CHR ''-'' then ([c], cs) else ([], s)
             | [] \<Rightarrow> ([], s))
      in case lex_int s0 of
           None \<Rightarrow> None
         | Some (i, s1) \<Rightarrow>
             (case lex_frac s1 of
                None \<Rightarrow> None
              | Some (f, s2) \<Rightarrow>
                  (case lex_exp s2 of
                     None \<Rightarrow> None
                   | Some (e, s3) \<Rightarrow> Some (sg @ i @ f @ e, s3))))"

text \<open>The tokens of a text. Every token takes at least one byte, so the recursion ends.\<close>

lemma lex_string_shorter: "lex_string acc s = Some (d, r) \<Longrightarrow> length r < length s"
proof (induction acc s arbitrary: d r rule: lex_string.induct)
  case (1 acc)
  then show ?case by simp
next
  case (2 acc c cs)
  show ?case
  proof (cases "c = CHR 0x22")
    case True
    with "2.prems" show ?thesis by simp
  next
    case q: False
    show ?thesis
    proof (cases "c = CHR 0x5C")
      case True
      with q "2.prems" obtain d0 n where u: "unquoteEscape cs = Some (d0, n)"
        and l: "lex_string (acc @ d0) (drop n cs) = Some (d, r)"
        by (auto split: option.splits)
      have "length r < length (drop n cs)"
        using "2.IH"(1) q True u l by blast
      then show ?thesis by simp
    next
      case b: False
      from q b "2.prems" have c: "\<not> byte c < 0x20"
        by (auto split: if_splits)
      show ?thesis
      proof (cases "byte c < 0x80")
        case True
        with q b c "2.prems" have "lex_string (acc @ [c]) cs = Some (d, r)" by simp
        then have "length r < length cs"
          using "2.IH"(2) q b c True by blast
        then show ?thesis by simp
      next
        case h: False
        show ?thesis
        proof (cases "DecodeRuneLen (c # cs) = 0")
          case True
          with q b c h "2.prems" have "lex_string (acc @ replacementBytes) cs = Some (d, r)" by simp
          then have "length r < length cs"
            using "2.IH"(3) q b c h True by blast
          then show ?thesis by simp
        next
          case False
          with q b c h "2.prems"
          have "lex_string (acc @ take (DecodeRuneLen (c # cs)) (c # cs)) (drop (DecodeRuneLen (c # cs) - 1) cs) = Some (d, r)"
            by simp
          then have "length r < length (drop (DecodeRuneLen (c # cs) - 1) cs)"
            using "2.IH"(4) q b c h False by blast
          then show ?thesis by simp
        qed
      qed
    qed
  qed
qed

lemma digits1_shorter: "digits1 s = Some (ds, r) \<Longrightarrow> length r < length s"
  by (cases s) (auto simp: digits1_def Let_def le_imp_less_Suc length_dropWhile_le split: if_splits)

lemma lex_int_shorter: "lex_int s = Some (i, r) \<Longrightarrow> length r < length s"
  by (cases s) (auto simp: lex_int_def le_imp_less_Suc length_dropWhile_le split: if_splits)

lemma lex_frac_le: "lex_frac s = Some (f, r) \<Longrightarrow> length r \<le> length s"
  by (cases s) (auto simp: lex_frac_def dest!: digits1_shorter split: if_splits option.splits)

lemma lex_exp_le: "lex_exp s = Some (e, r) \<Longrightarrow> length r \<le> length s"
  by (cases s) (auto simp: lex_exp_def dest!: digits1_shorter split: if_splits option.splits list.splits)

lemma lex_number_shorter: "lex_number s = Some (n, r) \<Longrightarrow> length r < length s"
proof -
  assume a: "lex_number s = Some (n, r)"
  obtain sg s0 where s0: "(case s of c # cs \<Rightarrow> if c = CHR ''-'' then ([c], cs) else ([], s) | [] \<Rightarrow> ([], s)) = (sg, s0)"
    by (cases "(case s of c # cs \<Rightarrow> if c = CHR ''-'' then ([c], cs) else ([], s) | [] \<Rightarrow> ([], s))") auto
  then have le0: "length s0 \<le> length s"
    by (auto split: list.splits if_splits)
  from a s0 obtain i s1 f s2 e where
    "lex_int s0 = Some (i, s1)" "lex_frac s1 = Some (f, s2)" "lex_exp s2 = Some (e, r)"
    by (auto simp: lex_number_def split: option.splits)
  then have "length s1 < length s0" "length s2 \<le> length s1" "length r \<le> length s2"
    by (auto dest: lex_int_shorter lex_frac_le lex_exp_le)
  with le0 show ?thesis by simp
qed

function lex :: "string \<Rightarrow> token list option" where
  "lex [] = Some []"
| "lex (c # cs) =
     (if isJSONSpace c then lex cs
      else if c = CHR ''{'' then map_option ((#) TLBrace) (lex cs)
      else if c = CHR ''}'' then map_option ((#) TRBrace) (lex cs)
      else if c = CHR ''['' then map_option ((#) TLBracket) (lex cs)
      else if c = CHR '']'' then map_option ((#) TRBracket) (lex cs)
      else if c = CHR '':'' then map_option ((#) TColon) (lex cs)
      else if c = CHR '','' then map_option ((#) TComma) (lex cs)
      else if c = CHR 0x22 then
        (case lex_string [] cs of
           None \<Rightarrow> None
         | Some (s, r) \<Rightarrow> map_option ((#) (TString s)) (lex r))
      else if c = CHR ''-'' \<or> isDigit c then
        (case lex_number (c # cs) of
           None \<Rightarrow> None
         | Some (n, r) \<Rightarrow> map_option ((#) (TNumber n)) (lex r))
      else if take 4 (c # cs) = ''true'' then map_option ((#) TTrue) (lex (drop 3 cs))
      else if take 5 (c # cs) = ''false'' then map_option ((#) TFalse) (lex (drop 4 cs))
      else if take 4 (c # cs) = ''null'' then map_option ((#) TNull) (lex (drop 3 cs))
      else None)"
  by pat_completeness auto
termination
proof (relation "measure length")
  fix c cs x2 x y
  assume "lex_string [] cs = Some x2" "(x, y) = x2"
  then show "(y, c # cs) \<in> measure length"
    using lex_string_shorter [of "[]" cs x y] by simp
next
  fix c cs x2 x y
  assume "lex_number (c # cs) = Some x2" "(x, y) = x2"
  then show "(y, c # cs) \<in> measure length"
    using lex_number_shorter [of "c # cs" x y] by simp
qed auto

text \<open>
  The machine. A frame is an open array with its elements so far, an open object with its
  members so far, or an open object whose next member has its key and waits for its value.
\<close>

datatype frame =
    InArray "json list"
  | InObject "(string \<times> json) list"
  | InMember "(string \<times> json) list" string

datatype pstate =
    BeginValue | BeginValueOrEmpty | BeginString | BeginStringOrEmpty
  | ExpectColon | EndValue | EndTop json

fun endValue :: "json \<Rightarrow> frame list \<Rightarrow> (pstate \<times> frame list) option" where
  "endValue v [] = Some (EndTop v, [])"
| "endValue v (InArray vs # st) = Some (EndValue, InArray (vs @ [v]) # st)"
| "endValue v (InMember ms k # st) = Some (EndValue, InObject (ms @ [(k, v)]) # st)"
| "endValue v (InObject ms # st) = None"

definition closeArray :: "frame list \<Rightarrow> (pstate \<times> frame list) option" where
  "closeArray st = (case st of InArray vs # st' \<Rightarrow> endValue (JArray vs) st' | _ \<Rightarrow> None)"

definition closeObject :: "frame list \<Rightarrow> (pstate \<times> frame list) option" where
  "closeObject st = (case st of InObject ms # st' \<Rightarrow> endValue (JObject ms) st' | _ \<Rightarrow> None)"

definition beginKey :: "string \<Rightarrow> frame list \<Rightarrow> (pstate \<times> frame list) option" where
  "beginKey k st = (case st of InObject ms # st' \<Rightarrow> Some (ExpectColon, InMember ms k # st') | _ \<Rightarrow> None)"

text \<open>
  \<open>pushParseState\<close>: a container is opened unless that would leave more than
  \<open>maxNestingDepth\<close> of them open.
\<close>

definition maxNestingDepth :: nat where
  "maxNestingDepth = 10000"

definition pushParseState :: "frame \<Rightarrow> frame list \<Rightarrow> pstate \<Rightarrow> (pstate \<times> frame list) option" where
  "pushParseState f st successState =
     (if length (f # st) \<le> maxNestingDepth then Some (successState, f # st) else None)"

definition beginValue :: "bool \<Rightarrow> frame list \<Rightarrow> token \<Rightarrow> (pstate \<times> frame list) option" where
  "beginValue orEmpty st t =
     (case t of
        TLBrace \<Rightarrow> pushParseState (InObject []) st BeginStringOrEmpty
      | TLBracket \<Rightarrow> pushParseState (InArray []) st BeginValueOrEmpty
      | TRBracket \<Rightarrow> if orEmpty then closeArray st else None
      | TString s \<Rightarrow> endValue (JString s) st
      | TNumber n \<Rightarrow> endValue (JNumber n) st
      | TTrue \<Rightarrow> endValue (JBool True) st
      | TFalse \<Rightarrow> endValue (JBool False) st
      | TNull \<Rightarrow> endValue JNull st
      | _ \<Rightarrow> None)"

definition afterValue :: "frame list \<Rightarrow> token \<Rightarrow> (pstate \<times> frame list) option" where
  "afterValue st t =
     (case st of
        InArray vs # st' \<Rightarrow>
          (case t of TComma \<Rightarrow> Some (BeginValue, st) | TRBracket \<Rightarrow> closeArray st | _ \<Rightarrow> None)
      | InObject ms # st' \<Rightarrow>
          (case t of TComma \<Rightarrow> Some (BeginString, st) | TRBrace \<Rightarrow> closeObject st | _ \<Rightarrow> None)
      | _ \<Rightarrow> None)"

definition parse_step :: "pstate \<Rightarrow> frame list \<Rightarrow> token \<Rightarrow> (pstate \<times> frame list) option" where
  "parse_step s st t =
     (case s of
        BeginValue \<Rightarrow> beginValue False st t
      | BeginValueOrEmpty \<Rightarrow> beginValue True st t
      | BeginString \<Rightarrow> (case t of TString k \<Rightarrow> beginKey k st | _ \<Rightarrow> None)
      | BeginStringOrEmpty \<Rightarrow>
          (case t of TString k \<Rightarrow> beginKey k st | TRBrace \<Rightarrow> closeObject st | _ \<Rightarrow> None)
      | ExpectColon \<Rightarrow> (case t of TColon \<Rightarrow> Some (BeginValue, st) | _ \<Rightarrow> None)
      | EndValue \<Rightarrow> afterValue st t
      | EndTop v \<Rightarrow> None)"

fun parse_tokens :: "pstate \<Rightarrow> frame list \<Rightarrow> token list \<Rightarrow> json option" where
  "parse_tokens s st [] = (case s of EndTop v \<Rightarrow> Some v | _ \<Rightarrow> None)"
| "parse_tokens s st (t # ts) =
     (case parse_step s st t of
        None \<Rightarrow> None
      | Some (s', st') \<Rightarrow> parse_tokens s' st' ts)"

definition json_parse :: "string \<Rightarrow> json option" where
  "json_parse data = (case lex data of None \<Rightarrow> None | Some ts \<Rightarrow> parse_tokens BeginValue [] ts)"

subsection \<open>HTTP responses and error values\<close>

text \<open>
  A response body is a stream. It is modelled by the bytes it delivers and by the error, if
  any, that reading meets after them; \<open>ioutil.ReadAll\<close> returns both.
\<close>

record body =
  content :: string
  readErr :: "string option"

definition ReadAll :: "body \<Rightarrow> string \<times> string option" where
  "ReadAll b = (content b, readErr b)"

text \<open>
  Of \<open>http.Response\<close> the model keeps the two fields the repository reads in deciding
  what to return: the status code and the body. (The request a response belongs to is read
  only by \<open>errorResponse.Error\<close>, which formats a message.)
\<close>

record http_Response =
  StatusCode :: int
  Body :: body

record errorResponse =
  Response :: "http_Response option"
  Message :: string
  X :: "(string \<times> json) list"

text \<open>
  Go's \<open>error\<close> values, as far as the repository and the modelled library functions
  produce them. \<open>APIError\<close> is an \<open>*errorResponse\<close> returned as an error.
\<close>

datatype error =
    ErrorString string
  | EscapeError string
  | InvalidHostError string
  | URLError string string error
  | SyntaxError
  | UnmarshalTypeError
  | MarshalError string
  | EOF
  | ErrUnexpectedEOF
  | ReadError string
  | TransportError string
  | Canceled
  | DeadlineExceeded
  | APIError errorResponse

text \<open>A call either returns or panics.\<close>

datatype 'a go = Panic string | Return 'a

subsection \<open>Package net/url\<close>

text \<open>
  Library model, following the package's source: \<open>Parse\<close> with its helpers
  (\<open>getscheme\<close>, \<open>parseAuthority\<close>, \<open>parseHost\<close>, \<open>setPath\<close>, \<open>unescape\<close>),
  \<open>String\<close> with \<open>EscapedPath\<close> and \<open>escape\<close>, \<open>ResolveReference\<close>, and \<open>Values\<close>.
  A URL reference need not be absolute to parse: \<open>Parse\<close> accepts a relative path and the
  empty string, and \<open>IsAbs\<close> tells whether a scheme was found. Error messages that quote
  a part of the input are kept without the quotation.
\<close>

datatype encoding =
    encodePath | encodePathSegment | encodeHost | encodeZone
  | encodeUserPassword | encodeQueryComponent | encodeFragment

definition isAlpha :: "char \<Rightarrow> bool" where
  "isAlpha c = ((97 \<le> byte c \<and> byte c \<le> 122) \<or> (65 \<le> byte c \<and> byte c \<le> 90))"

definition shouldEscape :: "char \<Rightarrow> encoding \<Rightarrow> bool" where
  "shouldEscape c mode =
     (if isAlpha c \<or> isDigit c then False
      else if (mode = encodeHost \<or> mode = encodeZone) \<and>
              c \<in> set (''!$&()*+,;=:[]<>'' @ [CHR 0x27, CHR 0x22]) then False
      else if c \<in> set ''-_.~'' then False
      else if c \<in> set ''$&+,/:;=?@'' \<and> mode = encodePath then c = CHR ''?''
      else if c \<in> set ''$&+,/:;=?@'' \<and> mode = encodePathSegment then c \<in> set ''/;,?''
      else if c \<in> set ''$&+,/:;=?@'' \<and> mode = encodeUserPassword then c \<in> set ''@/?:''
      else if c \<in> set ''$&+,/:;=?@'' \<and> mode = encodeQueryComponent then True
      else if c \<in> set ''$&+,/:;=?@'' \<and> mode = encodeFragment then False
      else if mode = encodeFragment \<and> c \<in> set ''!()*'' then False
      else True)"

definition ishex :: "char \<Rightarrow> bool" where
  "ishex c = (hexval c \<noteq> None)"

definition unhex :: "char \<Rightarrow> nat" where
  "unhex c = (case hexval c of Some v \<Rightarrow> v | None \<Rightarrow> 0)"

fun unescape :: "string \<Rightarrow> encoding \<Rightarrow> error + string" where
  "unescape [] mode = Inr []"
| "unescape (c # cs) mode =
     (if c = CHR ''%'' then
        (case cs of
           h1 # h2 # rest \<Rightarrow>
             if \<not> ishex h1 \<or> \<not> ishex h2 then Inl (EscapeError (take 3 (c # cs)))
             else if mode = encodeHost \<and> unhex h1 < 8 \<and> [c, h1, h2] \<noteq> ''%25'' then
               Inl (EscapeError [c, h1, h2])
             else if mode = encodeZone \<and> [c, h1, h2] \<noteq> ''%25''
                     \<and> unhex h1 * 16 + unhex h2 \<noteq> 32
                     \<and> shouldEscape (char_of (unhex h1 * 16 + unhex h2)) encodeHost then
               Inl (EscapeError [c, h1, h2])
             else
               (case unescape rest mode of
                  Inl e \<Rightarrow> Inl e
                | Inr t \<Rightarrow> Inr (char_of (unhex h1 * 16 + unhex h2) # t))
         | _ \<Rightarrow> Inl (EscapeError (take 3 (c # cs))))
      else if (mode = encodeHost \<or> mode = encodeZone) \<and> byte c < 0x80 \<and> shouldEscape c encodeHost then
        Inl (InvalidHostError [c])
      else
        (case unescape cs mode of
           Inl e \<Rightarrow> Inl e
         | Inr t \<Rightarrow> Inr ((if c = CHR ''+'' \<and> mode = encodeQueryComponent then CHR '' '' else c) # t)))"

definition upperhex :: "nat \<Rightarrow> char" where
  "upperhex n = ''0123456789ABCDEF'' ! n"

definition escape :: "string \<Rightarrow> encoding \<Rightarrow> string" where
  "escape s mode =
     concat (map (\<lambda>c.
        if shouldEscape c mode then
          (if c = CHR '' '' \<and> mode = encodeQueryComponent then ''+''
           else [CHR ''%'', upperhex (byte c div 16), upperhex (byte c mod 16)])
        else [c]) s)"

text \<open>The fields of \<open>url.URL\<close>. \<open>User\<close> is a pointer: \<open>None\<close> is nil.\<close>

record Userinfo =
  username :: string
  password :: string
  passwordSet :: bool

record URL =
  Scheme :: string
  Opaque :: string
  User :: "Userinfo option"
  Host :: string
  Path :: string
  RawPath :: string
  ForceQuery :: bool
  RawQuery :: string
  Fragment :: string

definition emptyURL :: URL where
  "emptyURL = \<lparr>Scheme = [], Opaque = [], User = None, Host = [], Path = [], RawPath = [],
                ForceQuery = False, RawQuery = [], Fragment = []\<rparr>"

text \<open>Helpers of the package and of package strings, on byte strings.\<close>

definition split :: "string \<Rightarrow> char \<Rightarrow> bool \<Rightarrow> string \<times> string" where
  "split s sep cutc =
     (let a = takeWhile (\<lambda>c. c \<noteq> sep) s; b = dropWhile (\<lambda>c. c \<noteq> sep) s
      in if b = [] then (s, []) else if cutc then (a, tl b) else (a, b))"

definition HasPrefix :: "string \<Rightarrow> string \<Rightarrow> bool" where
  "HasPrefix s p = (take (length p) s = p)"

definition LastIndexByte :: "string \<Rightarrow> char \<Rightarrow> nat option" where
  "LastIndexByte s c =
     (if c \<in> set s then Some (length s - 1 - length (takeWhile (\<lambda>d. d \<noteq> c) (rev s))) else None)"

fun Index :: "string \<Rightarrow> string \<Rightarrow> nat option" where
  "Index [] sub = (if sub = [] then Some 0 else None)"
| "Index (c # cs) sub =
     (if HasPrefix (c # cs) sub then Some 0 else map_option Suc (Index cs sub))"

definition ToLower :: "string \<Rightarrow> string" where
  "ToLower s = map (\<lambda>c. if 65 \<le> byte c \<and> byte c \<le> 90 then char_of (byte c + 32) else c) s"

definition stringContainsCTLByte :: "string \<Rightarrow> bool" where
  "stringContainsCTLByte s = (\<exists>b \<in> set s. byte b < 0x20 \<or> byte b = 0x7f)"

fun getscheme_from :: "nat \<Rightarrow> string \<Rightarrow> string \<Rightarrow> error + (string \<times> string)" where
  "getscheme_from i rawurl [] = Inr ([], rawurl)"
| "getscheme_from i rawurl (c # cs) =
     (if isAlpha c then getscheme_from (Suc i) rawurl cs
      else if isDigit c \<or> c = CHR ''+'' \<or> c = CHR ''-'' \<or> c = CHR ''.'' then
        (if i = 0 then Inr ([], rawurl) else getscheme_from (Suc i) rawurl cs)
      else if c = CHR '':'' then
        (if i = 0 then Inl (ErrorString ''missing protocol scheme'')
         else Inr (take i rawurl, cs))
      else Inr ([], rawurl))"

definition getscheme :: "string \<Rightarrow> error + (string \<times> string)" where
  "getscheme rawurl = getscheme_from 0 rawurl rawurl"

definition validOptionalPort :: "string \<Rightarrow> bool" where
  "validOptionalPort port =
     (case port of [] \<Rightarrow> True | c # ds \<Rightarrow> c = CHR '':'' \<and> list_all isDigit ds)"

definition validUserinfo :: "string \<Rightarrow> bool" where
  "validUserinfo s =
     list_all (\<lambda>r. isAlpha r \<or> isDigit r \<or> r \<in> set (''-._:~!$&()*+,;=%@'' @ [CHR 0x27])) s"

definition parseHost :: "string \<Rightarrow> error + string" where
  "parseHost host =
     (if HasPrefix host ''['' then
        (case LastIndexByte host (CHR '']'') of
           None \<Rightarrow> Inl (ErrorString ''missing ] in host'')
         | Some i \<Rightarrow>
             if \<not> validOptionalPort (drop (Suc i) host) then
               Inl (ErrorString ''invalid port after host'')
             else
               (case Index (take i host) ''%25'' of
                  Some zone \<Rightarrow>
                    (case unescape (take zone host) encodeHost of
                       Inl e \<Rightarrow> Inl e
                     | Inr host1 \<Rightarrow>
                         (case unescape (drop zone (take i host)) encodeZone of
                            Inl e \<Rightarrow> Inl e
                          | Inr host2 \<Rightarrow>
                              (case unescape (drop i host) encodeHost of
                                 Inl e \<Rightarrow> Inl e
                               | Inr host3 \<Rightarrow> Inr (host1 @ host2 @ host3))))
                | None \<Rightarrow> unescape host encodeHost))
      else
        (case LastIndexByte host (CHR '':'') of
           Some i \<Rightarrow>
             if \<not> validOptionalPort (drop i host) then Inl (ErrorString ''invalid port after host'')
             else unescape host encodeHost
         | None \<Rightarrow> unescape host encodeHost))"

definition parseUserinfo :: "string \<Rightarrow> error + Userinfo" where
  "parseUserinfo userinfo =
     (if \<not> validUserinfo userinfo then Inl (ErrorString ''net/url: invalid userinfo'')
      else if CHR '':'' \<notin> set userinfo then
        (case unescape userinfo encodeUserPassword of
           Inl e \<Rightarrow> Inl e
         | Inr u \<Rightarrow> Inr \<lparr>username = u, password = [], passwordSet = False\<rparr>)
      else
        (let (un, pw) = split userinfo (CHR '':'') True
         in case unescape un encodeUserPassword of
              Inl e \<Rightarrow> Inl e
            | Inr u \<Rightarrow>
                (case unescape pw encodeUserPassword of
                   Inl e \<Rightarrow> Inl e
                 | Inr p \<Rightarrow> Inr \<lparr>username = u, password = p, passwordSet = True\<rparr>)))"

definition parseAuthority :: "string \<Rightarrow> error + (Userinfo option \<times> string)" where
  "parseAuthority authority =
     (case LastIndexByte authority (CHR ''@'') of
        None \<Rightarrow>
          (case parseHost authority of Inl e \<Rightarrow> Inl e | Inr host \<Rightarrow> Inr (None, host))
      | Some i \<Rightarrow>
          (case parseHost (drop (Suc i) authority) of
             Inl e \<Rightarrow> Inl e
           | Inr host \<Rightarrow>
               (case parseUserinfo (take i authority) of
                  Inl e \<Rightarrow> Inl e
                | Inr ui \<Rightarrow> Inr (Some ui, host))))"

definition setPath :: "URL \<Rightarrow> string \<Rightarrow> error + URL" where
  "setPath u p =
     (case unescape p encodePath of
        Inl e \<Rightarrow> Inl e
      | Inr path \<Rightarrow>
          Inr (u\<lparr>Path := path, RawPath := (if p = escape path encodePath then [] else p)\<rparr>))"

definition parse :: "string \<Rightarrow> bool \<Rightarrow> error + URL" where
  "parse rawurl viaRequest =
     (if stringContainsCTLByte rawurl then
        Inl (ErrorString ''net/url: invalid control character in URL'')
      else if rawurl = [] \<and> viaRequest then Inl (ErrorString ''empty url'')
      else if rawurl = ''*'' then Inr (emptyURL\<lparr>Path := ''*''\<rparr>)
      else
        (case getscheme rawurl of
           Inl e \<Rightarrow> Inl e
         | Inr (scheme0, rest0) \<Rightarrow>
             let scheme = ToLower scheme0;
                 force = (rest0 \<noteq> [] \<and> last rest0 = CHR ''?'' \<and> count_list rest0 (CHR ''?'') = 1);
                 (rest, rawquery) = (if force then (butlast rest0, []) else split rest0 (CHR ''?'') True);
                 url = emptyURL\<lparr>Scheme := scheme, ForceQuery := force, RawQuery := rawquery\<rparr>
             in
               if \<not> HasPrefix rest ''/'' \<and> scheme \<noteq> [] then Inr (url\<lparr>Opaque := rest\<rparr>)
               else if \<not> HasPrefix rest ''/'' \<and> viaRequest then
                 Inl (ErrorString ''invalid URI for request'')
               else if \<not> HasPrefix rest ''/'' \<and>
                       CHR '':'' \<in> set (takeWhile (\<lambda>c. c \<noteq> CHR ''/'') rest) then
                 Inl (ErrorString ''first path segment in URL cannot contain colon'')
               else if (scheme \<noteq> [] \<or> \<not> viaRequest \<and> \<not> HasPrefix rest ''///'')
                       \<and> HasPrefix rest ''//'' then
                 (let (authority, rest') = split (drop 2 rest) (CHR ''/'') False
                  in case parseAuthority authority of
                       Inl e \<Rightarrow> Inl e
                     | Inr (user, host) \<Rightarrow> setPath (url\<lparr>User := user, Host := host\<rparr>) rest')
               else setPath url rest))"

definition url_Parse :: "string \<Rightarrow> error + URL" where
  "url_Parse rawurl =
     (let (u, frag) = split rawurl (CHR ''#'') True
      in case parse u False of
           Inl e \<Rightarrow> Inl (URLError ''parse'' u e)
         | Inr url \<Rightarrow>
             if frag = [] then Inr url
             else
               (case unescape frag encodeFragment of
                  Inl e \<Rightarrow> Inl (URLError ''parse'' rawurl e)
                | Inr f \<Rightarrow> Inr (url\<lparr>Fragment := f\<rparr>)))"

definition IsAbs :: "URL \<Rightarrow> bool" where
  "IsAbs u = (Scheme u \<noteq> [])"

definition Userinfo_String :: "Userinfo \<Rightarrow> string" where
  "Userinfo_String u =
     escape (username u) encodeUserPassword
       @ (if passwordSet u then '':'' @ escape (password u) encodeUserPassword else [])"

definition validEncodedPath :: "string \<Rightarrow> bool" where
  "validEncodedPath s =
     list_all (\<lambda>c. c \<in> set (''!$&()*+,;=:@[]%'' @ [CHR 0x27]) \<or> \<not> shouldEscape c encodePath) s"

definition EscapedPath :: "URL \<Rightarrow> string" where
  "EscapedPath u =
     (if RawPath u \<noteq> [] \<and> validEncodedPath (RawPath u)
         \<and> unescape (RawPath u) encodePath = Inr (Path u) then RawPath u
      else if Path u = ''*'' then ''*''
      else escape (Path u) encodePath)"

text \<open>
  \<open>(*URL).String\<close>. The text is assembled in the order the library writes it: scheme,
  opaque part or authority and path, query, fragment.
\<close>

definition URL_authority :: "URL \<Rightarrow> string" where
  "URL_authority u =
     (if Scheme u \<noteq> [] \<or> Host u \<noteq> [] \<or> User u \<noteq> None then
        (if Host u \<noteq> [] \<or> Path u \<noteq> [] \<or> User u \<noteq> None then ''//'' else [])
          @ (case User u of Some ui \<Rightarrow> Userinfo_String ui @ ''@'' | None \<Rightarrow> [])
          @ (if Host u \<noteq> [] then escape (Host u) encodeHost else [])
      else [])"

definition URL_hier :: "URL \<Rightarrow> string" where
  "URL_hier u =
     (let buf0 = (if Scheme u \<noteq> [] then Scheme u @ '':'' else []) in
      if Opaque u \<noteq> [] then buf0 @ Opaque u
      else
        let buf1 = buf0 @ URL_authority u;
            path = EscapedPath u;
            buf2 = (if path \<noteq> [] \<and> hd path \<noteq> CHR ''/'' \<and> Host u \<noteq> [] then buf1 @ ''/'' else buf1);
            buf3 = (if buf2 = [] \<and> CHR '':'' \<in> set (takeWhile (\<lambda>c. c \<noteq> CHR ''/'') path)
                    then ''./'' else buf2)
        in buf3 @ path)"

definition URL_String :: "URL \<Rightarrow> string" where
  "URL_String u =
     URL_hier u
       @ (if ForceQuery u \<or> RawQuery u \<noteq> [] then ''?'' @ RawQuery u else [])
       @ (if Fragment u \<noteq> [] then ''#'' @ escape (Fragment u) encodeFragment else [])"

text \<open>\<open>(*URL).Parse\<close> and \<open>ResolveReference\<close>: a reference resolved against a base.\<close>

fun Split :: "string \<Rightarrow> char \<Rightarrow> string list" where
  "Split [] sep = [[]]"
| "Split (c # cs) sep =
     (if c = sep then [] # Split cs sep
      else (case Split cs sep of x # xs \<Rightarrow> (c # x) # xs | [] \<Rightarrow> [[c]]))"

fun removeDots :: "string list \<Rightarrow> string list \<Rightarrow> string list" where
  "removeDots dst [] = dst"
| "removeDots dst (elem # src) =
     (if elem = ''.'' then removeDots dst src
      else if elem = ''..'' then removeDots (butlast dst) src
      else removeDots (dst @ [elem]) src)"

definition TrimPrefix :: "string \<Rightarrow> string \<Rightarrow> string" where
  "TrimPrefix s p = (if HasPrefix s p then drop (length p) s else s)"

definition resolvePath :: "string \<Rightarrow> string \<Rightarrow> string" where
  "resolvePath base ref =
     (let full =
            (if ref = [] then base
             else if hd ref \<noteq> CHR ''/'' then
               (case LastIndexByte base (CHR ''/'') of
                  None \<Rightarrow> ref
                | Some i \<Rightarrow> take (Suc i) base @ ref)
             else ref)
      in if full = [] then []
         else
           let src = Split full (CHR ''/'');
               dst = removeDots [] src;
               dst' = (if last src = ''.'' \<or> last src = ''..'' then dst @ [[]] else dst)
           in ''/'' @ TrimPrefix (Join dst' ''/'') ''/'')"

definition setPath_ignoring :: "URL \<Rightarrow> string \<Rightarrow> URL" where
  "setPath_ignoring u p = (case setPath u p of Inl e \<Rightarrow> u | Inr u' \<Rightarrow> u')"

definition ResolveReference :: "URL \<Rightarrow> URL \<Rightarrow> URL" where
  "ResolveReference u ref =
     (let url = (if Scheme ref = [] then ref\<lparr>Scheme := Scheme u\<rparr> else ref) in
      if Scheme ref \<noteq> [] \<or> Host ref \<noteq> [] \<or> User ref \<noteq> None then
        setPath_ignoring url (resolvePath (EscapedPath ref) [])
      else if Opaque ref \<noteq> [] then url\<lparr>User := None, Host := [], Path := []\<rparr>
      else
        let url1 =
              (if Path ref = [] \<and> RawQuery ref = [] then
                 url\<lparr>RawQuery := RawQuery u,
                     Fragment := (if Fragment ref = [] then Fragment u else Fragment url)\<rparr>
               else url)
        in setPath_ignoring (url1\<lparr>Host := Host u, User := User u\<rparr>)
             (resolvePath (EscapedPath u) (EscapedPath ref)))"

definition URL_Parse :: "URL \<Rightarrow> string \<Rightarrow> error + URL" where
  "URL_Parse u ref =
     (case url_Parse ref of
        Inl err \<Rightarrow> Inl err
      | Inr refurl \<Rightarrow> Inr (ResolveReference u refurl))"

text \<open>
  \<open>url.Values\<close> is a map from a key to the list of its values; it is kept as an
  association list with one entry per key. \<open>Encode\<close> writes the keys in sorted order.
\<close>

type_synonym Values = "(string \<times> string list) list"

definition Values_Add :: "string \<Rightarrow> string \<Rightarrow> Values \<Rightarrow> Values" where
  "Values_Add key v vs =
     (case map_of vs key of
        None \<Rightarrow> vs @ [(key, [v])]
      | Some old \<Rightarrow> map (\<lambda>(k, x). if k = key then (k, x @ [v]) else (k, x)) vs)"

definition Values_Set :: "string \<Rightarrow> string \<Rightarrow> Values \<Rightarrow> Values" where
  "Values_Set key v vs =
     (case map_of vs key of
        None \<Rightarrow> vs @ [(key, [v])]
      | Some old \<Rightarrow> map (\<lambda>(k, x). if k = key then (k, [v]) else (k, x)) vs)"

definition QueryEscape :: "string \<Rightarrow> string" where
  "QueryEscape s = escape s encodeQueryComponent"

text \<open>
  \<open>Encode\<close> goes through the keys in sorted order and writes one parameter,
  \<open>key=value\<close> with both sides escaped, for every value of the key; parameters are
  separated by \<open>&\<close>.
\<close>

definition Values_params :: "Values \<Rightarrow> (string \<times> string) list" where
  "Values_params vs =
     concat (map (\<lambda>k. map (Pair k) (case map_of vs k of Some xs \<Rightarrow> xs | None \<Rightarrow> []))
                 (sort (map fst vs)))"

definition Values_Encode :: "Values \<Rightarrow> string" where
  "Values_Encode vs =
     Join (map (\<lambda>(k, v). QueryEscape k @ ''='' @ QueryEscape v) (Values_params vs)) ''&''"

subsection \<open>Option values and their query encoding (channel.go, go-querystring)\<close>

record PropFilterItem =
  Field :: string
  Operator :: string
  Value :: json

record PropFilters =
  Condition :: string
  Items :: "PropFilterItem list"

record ContentOptions =
  LegacyMetadata :: bool
  PublicID :: string

record SearchOptions =
  Skip :: int
  Take :: int
  PublicID :: "string list"
  ContentDefinition :: "string list"
  Repositories :: "string list"
  LegacyMetadata :: bool
  Tags :: "string list"
  PropFilters :: PropFilters
  Sorting :: Sorting

text \<open>
  The two custom encoders of channel.go. \<open>json.Marshal\<close> of a property filter is the
  parameter \<open>marshal\<close>: the filter's values are arbitrary Go values, and marshalling them
  can fail.
\<close>

definition Sorting_EncodeValues :: "Sorting \<Rightarrow> string \<Rightarrow> Values \<Rightarrow> error + Values" where
  "Sorting_EncodeValues s key v = Inr (Values_Set ''sorting'' (serializeSorting s) v)"

definition PropFilters_EncodeValues ::
  "(PropFilters \<Rightarrow> error + string) \<Rightarrow> PropFilters \<Rightarrow> string \<Rightarrow> Values \<Rightarrow> error + Values" where
  "PropFilters_EncodeValues marshal p key v =
     (if length (Items p) = 0 then Inr v
      else
        (case marshal p of
           Inl err \<Rightarrow> Inl err
         | Inr j \<Rightarrow> Inr (Values_Set ''propFilters'' j v)))"

text \<open>
  Library model. go-querystring's \<open>reflectValue\<close> walks the exported fields of a struct in
  the order of their declaration. A field tagged \<open>omitempty\<close> is left out when it is
  empty (a false flag, an empty string, a slice of length 0; a struct is never empty). A
  field whose type implements \<open>Encoder\<close> is handed to its \<open>EncodeValues\<close>; a slice adds
  one value per element; anything else adds its printed value. Embedded structs are walked
  after the fields of the struct that embeds them. The functions below are this walk for
  the struct types the repository passes.
\<close>

function itoa_nat :: "nat \<Rightarrow> string" where
  "itoa_nat n = (if n < 10 then [char_of (48 + n)] else itoa_nat (n div 10) @ [char_of (48 + n mod 10)])"
  by pat_completeness auto
termination
  by (relation "measure id") auto

definition Itoa :: "int \<Rightarrow> string" where
  "Itoa i = (if i < 0 then ''-'' @ itoa_nat (nat (- i)) else itoa_nat (nat i))"

definition addSlice :: "string \<Rightarrow> string list \<Rightarrow> Values \<Rightarrow> Values" where
  "addSlice name xs values = fold (Values_Add name) xs values"

definition reflect_ContentOptions :: "ContentOptions \<Rightarrow> Values \<Rightarrow> error + Values" where
  "reflect_ContentOptions co values =
     (let v1 = (if ContentOptions.LegacyMetadata co
                then Values_Add ''legacyMetadata'' ''true'' values else values)
      in Inr (Values_Add ''publicId'' (ContentOptions.PublicID co) v1))"

definition reflect_SearchOptions ::
  "(PropFilters \<Rightarrow> error + string) \<Rightarrow> SearchOptions \<Rightarrow> Values \<Rightarrow> error + Values" where
  "reflect_SearchOptions marshal so values =
     (let v1 = Values_Add ''skip'' (Itoa (Skip so)) values;
          v2 = Values_Add ''take'' (Itoa (Take so)) v1;
          v3 = addSlice ''publicId'' (SearchOptions.PublicID so) v2;
          v4 = addSlice ''contentDefinition'' (ContentDefinition so) v3;
          v5 = addSlice ''repositories'' (Repositories so) v4;
          v6 = (if SearchOptions.LegacyMetadata so
                then Values_Add ''legacyMetadata'' ''true'' v5 else v5);
          v7 = addSlice ''tags'' (Tags so) v6
      in case PropFilters_EncodeValues marshal (PropFilters so) ''propFilters'' v7 of
           Inl err \<Rightarrow> Inl err
         | Inr v8 \<Rightarrow>
             if length (Sorting so) = 0 then Inr v8
             else Sorting_EncodeValues (Sorting so) ''sorting'' v8)"

text \<open>
  What \<open>addOptions\<close> can be handed as \<open>opts interface{}\<close>: no value at all, a nil pointer,
  a pointer to a struct, a struct, or a value that is not a struct. The structs are the
  option types and the two anonymous structs of the preview channel, which embed the
  caller's options next to a \<open>TargetDate\<close> string tagged \<open>targetDate,omitempty\<close>.
\<close>

datatype optsStruct =
    ContentOpts ContentOptions
  | SearchOpts SearchOptions
  | PreviewContentParams ContentOptions string
  | PreviewSearchParams SearchOptions string

datatype opts =
    NilInterface
  | NilPointer
  | Pointer optsStruct
  | Struct optsStruct
  | NotStruct

definition addTargetDate :: "string \<Rightarrow> Values \<Rightarrow> Values" where
  "addTargetDate targetDate values =
     (if length targetDate = 0 then values else Values_Add ''targetDate'' targetDate values)"

fun reflectValue ::
  "(PropFilters \<Rightarrow> error + string) \<Rightarrow> optsStruct \<Rightarrow> Values \<Rightarrow> error + Values" where
  "reflectValue marshal (ContentOpts co) values = reflect_ContentOptions co values"
| "reflectValue marshal (SearchOpts so) values = reflect_SearchOptions marshal so values"
| "reflectValue marshal (PreviewContentParams co targetDate) values =
     reflect_ContentOptions co (addTargetDate targetDate values)"
| "reflectValue marshal (PreviewSearchParams so targetDate) values =
     reflect_SearchOptions marshal so (addTargetDate targetDate values)"

fun query_Values :: "(PropFilters \<Rightarrow> error + string) \<Rightarrow> opts \<Rightarrow> error + Values" where
  "query_Values marshal NilPointer = Inr []"
| "query_Values marshal NilInterface = Inr []"
| "query_Values marshal (Pointer s) = reflectValue marshal s []"
| "query_Values marshal (Struct s) = reflectValue marshal s []"
| "query_Values marshal NotStruct = Inl (ErrorString ''query: Values() expects struct input'')"

subsection \<open>The client (client.go)\<close>

definition libraryVersion :: string where
  "libraryVersion = ''0.1''"

definition userAgent :: string where
  "userAgent = ''contentchef-go/'' @ libraryVersion"

definition mediaType :: string where
  "mediaType = ''application/json''"

text \<open>
  A \<open>context.Context\<close> as \<open>do\<close> observes it after the transport has returned: whether its
  \<open>Done\<close> channel is closed, and what \<open>Err\<close> returns. A nil context is \<open>None\<close>.

  Of \<open>time.Time\<close> the model keeps the two methods the preview channel calls.
\<close>

record Context =
  Done :: bool
  Err :: "error option"

definition Background :: Context where
  "Background = \<lparr>Done = False, Err = None\<rparr>"

record Time =
  IsZero :: bool
  Format :: "string \<Rightarrow> string"

definition RFC3339 :: string where
  "RFC3339 = ''2006-01-02T15:04:05Z07:00''"

record http_Request =
  Method :: string
  URL :: URL
  Header :: "(string \<times> string list) list"
  Body :: "string option"
  Host :: string
  ctx :: Context

text \<open>
  The transport (\<open>*http.Client\<close>) is a function of its own state: given a request it
  returns a response or an error, and its next state. A call of \<open>Do\<close> is an application of
  this function, so a state that comes back unchanged was never touched.
\<close>

type_synonym 't transport = "'t \<Rightarrow> http_Request \<Rightarrow> (error + http_Response) \<times> 't"

text \<open>
  Modelled from the spec: the field \<open>TargetDate\<close> of \<open>Client\<close> and of \<open>ClientOptions\<close>,
  the configuration's optional target date, a timestamp used only by preview-mode queries.
  channel.go reads it as \<open>s.client.TargetDate\<close>, of type \<open>time.Time\<close>, and the tests and
  the README set it; the declarations in client.go carry a \<open>TargetDateResolver\<close> in that
  place, which nothing reads. The other fields are those of client.go.
\<close>

record 't Client =
  httpClient :: "'t transport"
  BaseURL :: URL
  SpaceID :: string
  TargetDate :: Time

record 't ClientOptions =
  BaseURL :: string
  SpaceID :: string
  Client :: "'t transport option"
  TargetDate :: Time

text \<open>
  \<open>NewClient\<close>, for a \<open>ClientOptions\<close> value. \<open>DefaultClient\<close> stands for
  \<open>http.DefaultClient\<close>.
\<close>

definition NewClient :: "'t transport \<Rightarrow> 't ClientOptions \<Rightarrow> error + 't Client" where
  "NewClient DefaultClient opt =
     (case url_Parse (ClientOptions.BaseURL opt) of
        Inl err \<Rightarrow> Inl err
      | Inr BaseURL' \<Rightarrow>
          if ClientOptions.SpaceID opt = [] then Inl (ErrorString ''SpaceID must be setted'')
          else
            Inr \<lparr>httpClient = (case Client opt of None \<Rightarrow> DefaultClient | Some h \<Rightarrow> h),
                 Client.BaseURL = BaseURL',
                 Client.SpaceID = ClientOptions.SpaceID opt,
                 Client.TargetDate = ClientOptions.TargetDate opt\<rparr>)"

text \<open>Library model. \<open>http.Header.Set\<close> stores a value under the canonical form of its key.\<close>

definition isTokenByte :: "char \<Rightarrow> bool" where
  "isTokenByte c = (isAlpha c \<or> isDigit c \<or> c \<in> set (''!#$%&*+-.^_`|~'' @ [CHR 0x27]))"

fun canonicalize :: "bool \<Rightarrow> string \<Rightarrow> string" where
  "canonicalize upper [] = []"
| "canonicalize upper (c # cs) =
     (let c' = (if upper \<and> 97 \<le> byte c \<and> byte c \<le> 122 then char_of (byte c - 32)
                else if \<not> upper \<and> 65 \<le> byte c \<and> byte c \<le> 90 then char_of (byte c + 32)
                else c)
      in c' # canonicalize (c' = CHR ''-'') cs)"

definition CanonicalMIMEHeaderKey :: "string \<Rightarrow> string" where
  "CanonicalMIMEHeaderKey s = (if list_all isTokenByte s then canonicalize True s else s)"

definition Header_Set :: "string \<Rightarrow> string \<Rightarrow> http_Request \<Rightarrow> http_Request" where
  "Header_Set key v req =
     req\<lparr>Header := Values_Set (CanonicalMIMEHeaderKey key) v (Header req)\<rparr>"

text \<open>Library model. \<open>http.NewRequest\<close>: the method is checked and the URL parsed.\<close>

definition removeEmptyPort :: "string \<Rightarrow> string" where
  "removeEmptyPort host =
     (if host \<noteq> [] \<and> last host = CHR '':'' then butlast host else host)"

definition http_NewRequest :: "string \<Rightarrow> string \<Rightarrow> string option \<Rightarrow> error + http_Request" where
  "http_NewRequest method url body =
     (let method' = (if method = [] then ''GET'' else method) in
      if \<not> list_all isTokenByte method' then Inl (ErrorString ''net/http: invalid method'')
      else
        (case url_Parse url of
           Inl err \<Rightarrow> Inl err
         | Inr u \<Rightarrow>
             Inr \<lparr>Method = method', URL = u\<lparr>URL.Host := removeEmptyPort (URL.Host u)\<rparr>,
                  Header = [], Body = body, Host = removeEmptyPort (URL.Host u),
                  ctx = Background\<rparr>))"

text \<open>
  \<open>newRequest\<close>. The JSON encoding of a request body is the parameter \<open>encode\<close>; the
  repository only ever passes a nil body.
\<close>

definition newRequest ::
  "('b \<Rightarrow> error + string) \<Rightarrow> 't Client \<Rightarrow> string \<Rightarrow> string \<Rightarrow> 'b option \<Rightarrow> error + http_Request" where
  "newRequest encode c method urlStr body =
     (case URL_Parse (Client.BaseURL c) urlStr of
        Inl err \<Rightarrow> Inl err
      | Inr u \<Rightarrow>
          (case (case body of None \<Rightarrow> Inr None | Some b \<Rightarrow> map_sum id Some (encode b)) of
             Inl err \<Rightarrow> Inl err
           | Inr buf \<Rightarrow>
               (case http_NewRequest method (URL_String u) buf of
                  Inl err \<Rightarrow> Inl err
                | Inr req \<Rightarrow>
                    let req1 = (if body \<noteq> None then Header_Set ''Content-Type'' mediaType req else req);
                        req2 = Header_Set ''Accept'' mediaType req1
                    in Inr (Header_Set ''User-Agent'' userAgent req2))))"

text \<open>
  Library model. \<open>json.Unmarshal\<close> into an \<open>*errorResponse\<close>. The data must be one JSON
  value, or nothing is stored and a syntax error is returned. The struct has two fields
  that take part, \<open>Response\<close> and \<open>Message\<close> (\<open>X\<close> is tagged \<open>-\<close>); an object's member is
  stored into the field its key names, exactly or under the library's case folding, and
  other members are skipped. A value of the wrong kind for its field records a type error
  and decoding goes on; \<open>null\<close> leaves a string alone and clears a pointer, and any other
  value for a nil pointer allocates what it points to. Decoding the members of an object
  into the fields of \<open>http.Response\<close> is the parameter \<open>decodeResponse\<close>, which returns
  the error it records, if any, and the response as it stands afterwards.
\<close>

definition foldsTo :: "char \<Rightarrow> char \<Rightarrow> bool" where
  "foldsTo sb tb =
     (sb = tb \<or> (isAlpha sb \<and> isAlpha tb \<and> byte sb mod 32 = byte tb mod 32))"

fun equalFoldRight :: "string \<Rightarrow> string \<Rightarrow> bool" where
  "equalFoldRight [] t = (t = [])"
| "equalFoldRight (sb # s) [] = False"
| "equalFoldRight (sb # s) (tb # t) =
     (if byte tb < 0x80 then foldsTo sb tb \<and> equalFoldRight s t
      else if (sb = CHR ''s'' \<or> sb = CHR ''S'') \<and> take 2 (tb # t) = [CHR 0xC5, CHR 0xBF] then
        equalFoldRight s (drop 1 t)
      else if (sb = CHR ''k'' \<or> sb = CHR ''K'') \<and> take 3 (tb # t) = [CHR 0xE2, CHR 0x84, CHR 0xAA] then
        equalFoldRight s (drop 2 t)
      else False)"

datatype field = FieldResponse | FieldMessage

definition findField :: "string \<Rightarrow> field option" where
  "findField key =
     (if key = ''Response'' then Some FieldResponse
      else if key = ''Message'' then Some FieldMessage
      else if equalFoldRight ''Response'' key then Some FieldResponse
      else if equalFoldRight ''Message'' key then Some FieldMessage
      else None)"

definition saveError :: "error option \<Rightarrow> error option \<Rightarrow> error option" where
  "saveError saved err = (case saved of None \<Rightarrow> err | Some e \<Rightarrow> Some e)"

definition zeroResponse :: http_Response where
  "zeroResponse = \<lparr>StatusCode = 0, Body = \<lparr>content = [], readErr = None\<rparr>\<rparr>"

type_synonym decodeResponse =
  "(string \<times> json) list \<Rightarrow> http_Response \<Rightarrow> error option \<times> http_Response"

definition storeMember ::
  "decodeResponse \<Rightarrow> string \<times> json \<Rightarrow> error option \<times> errorResponse \<Rightarrow> error option \<times> errorResponse" where
  "storeMember decodeResponse m acc =
     (let (saved, er) = acc; (key, v) = m in
      case findField key of
        None \<Rightarrow> (saved, er)
      | Some FieldMessage \<Rightarrow>
          (case v of
             JString s \<Rightarrow> (saved, er\<lparr>Message := s\<rparr>)
           | JNull \<Rightarrow> (saved, er)
           | _ \<Rightarrow> (saveError saved (Some UnmarshalTypeError), er))
      | Some FieldResponse \<Rightarrow>
          (let r0 = (case Response er of None \<Rightarrow> zeroResponse | Some r \<Rightarrow> r) in
           case v of
             JNull \<Rightarrow> (saved, er\<lparr>Response := None\<rparr>)
           | JObject ms \<Rightarrow>
               (let (e, r) = decodeResponse ms r0
                in (saveError saved e, er\<lparr>Response := Some r\<rparr>))
           | _ \<Rightarrow> (saveError saved (Some UnmarshalTypeError), er\<lparr>Response := Some r0\<rparr>)))"

definition json_Unmarshal ::
  "decodeResponse \<Rightarrow> string \<Rightarrow> errorResponse \<Rightarrow> error option \<times> errorResponse" where
  "json_Unmarshal decodeResponse data er =
     (case json_parse data of
        None \<Rightarrow> (Some SyntaxError, er)
      | Some (JObject ms) \<Rightarrow> foldl (\<lambda>acc m. storeMember decodeResponse m acc) (None, er) ms
      | Some JNull \<Rightarrow> (None, er)
      | Some _ \<Rightarrow> (Some UnmarshalTypeError, er))"

text \<open>\<open>checkResponse\<close>: \<open>None\<close> is the nil error.\<close>

definition checkResponse :: "decodeResponse \<Rightarrow> http_Response \<Rightarrow> error option" where
  "checkResponse decodeResponse r =
     (let c = StatusCode r in
      if c \<ge> 200 \<and> c \<le> 299 then None
      else
        let errorResponse = \<lparr>Response = Some r, Message = [], X = []\<rparr>;
            (data, err) = ReadAll (http_Response.Body r)
        in if err = None \<and> length data > 0 then
             (case json_Unmarshal decodeResponse data errorResponse of
                (Some e, errorResponse') \<Rightarrow> Some (APIError (errorResponse'\<lparr>Message := data\<rparr>))
              | (None, errorResponse') \<Rightarrow> Some (APIError errorResponse'))
           else Some (APIError errorResponse))"

text \<open>
  The target \<open>v interface{}\<close> of \<open>do\<close>: nil, an \<open>io.Writer\<close> (a buffer, given by what has
  been written to it), or a pointer to a value that JSON is decoded into.

  Library model. \<open>(*json.Decoder).Decode\<close> reads the next JSON value from the stream. When
  the stream ends before any byte other than white space was read it returns \<open>io.EOF\<close>
  (or the error the stream ended with) and leaves the target alone. What it does with any
  other body depends on the target's type and is the parameter \<open>decode\<close>, which returns
  the error, if any, and the target as it stands afterwards.
\<close>

datatype 'v target = NilTarget | Writer string | Target 'v

definition Decoder_Decode ::
  "(body \<Rightarrow> 'v \<Rightarrow> error option \<times> 'v) \<Rightarrow> body \<Rightarrow> 'v \<Rightarrow> error option \<times> 'v" where
  "Decoder_Decode decode b v =
     (if list_all isJSONSpace (content b) then
        (Some (case readErr b of None \<Rightarrow> EOF | Some e \<Rightarrow> ReadError e), v)
      else decode b v)"

record ('v, 't) result =
  ret_response :: "http_Response option"
  ret_err :: "error option"
  target :: "'v target"
  transport :: 't
  closed :: bool

text \<open>
  \<open>(*Client).do\<close>. The result holds the two values \<open>do\<close> returns, the target and the
  transport's state as the call leaves them, and whether the response body was closed.
  The response returned is the one the transport returned. (The error value points to the
  same response, so a body with a \<open>response\<close> member can write to it while it is decoded;
  the model keeps that effect inside the error value.)
\<close>

definition Client_do ::
  "decodeResponse \<Rightarrow> (body \<Rightarrow> 'v \<Rightarrow> error option \<times> 'v) \<Rightarrow> 't Client \<Rightarrow> Context option
     \<Rightarrow> http_Request \<Rightarrow> 'v target \<Rightarrow> 't \<Rightarrow> ('v, 't) result" where
  "Client_do decodeResponse decode c ctx' req v t =
     (case ctx' of
        None \<Rightarrow>
          \<lparr>ret_response = None, ret_err = Some (ErrorString ''context must be non-nil''),
           target = v, transport = t, closed = False\<rparr>
      | Some cx \<Rightarrow>
          (case httpClient c t (req\<lparr>ctx := cx\<rparr>) of
             (Inl e, t') \<Rightarrow>
               if Done cx then
                 \<lparr>ret_response = None, ret_err = Err cx, target = v, transport = t', closed = False\<rparr>
               else
                 \<lparr>ret_response = None, ret_err = Some e, target = v, transport = t', closed = False\<rparr>
           | (Inr res, t') \<Rightarrow>
               (case checkResponse decodeResponse res of
                  Some e \<Rightarrow>
                    \<lparr>ret_response = Some res, ret_err = Some e, target = v, transport = t', closed = True\<rparr>
                | None \<Rightarrow>
                    (case v of
                       NilTarget \<Rightarrow>
                         \<lparr>ret_response = Some res, ret_err = None, target = v, transport = t', closed = True\<rparr>
                     | Writer w \<Rightarrow>
                         \<lparr>ret_response = Some res, ret_err = None,
                          target = Writer (w @ content (http_Response.Body res)),
                          transport = t', closed = True\<rparr>
                     | Target x \<Rightarrow>
                         (let (decErr, x') = Decoder_Decode decode (http_Response.Body res) x;
                              decErr' = (if decErr = Some EOF then None else decErr)
                          in \<lparr>ret_response = Some res, ret_err = decErr', target = Target x',
                               transport = t', closed = True\<rparr>)))))"

text \<open>\<open>addOptions\<close>. On an error the path comes back with it; the model returns the error.\<close>

definition addOptions ::
  "(PropFilters \<Rightarrow> error + string) \<Rightarrow> string \<Rightarrow> opts \<Rightarrow> error + string" where
  "addOptions marshal path opts =
     (if opts = NilPointer then Inr path
      else
        (case url_Parse path of
           Inl err \<Rightarrow> Inl err
         | Inr u \<Rightarrow>
             (case query_Values marshal opts of
                Inl err \<Rightarrow> Inl err
              | Inr qs \<Rightarrow> Inr (URL_String (u\<lparr>RawQuery := Values_Encode qs\<rparr>)))))"

text \<open>\<open>(*Client).get\<close> returns an error; the result also holds the target and the transport.\<close>

definition Client_get ::
  "(PropFilters \<Rightarrow> error + string) \<Rightarrow> decodeResponse \<Rightarrow> (body \<Rightarrow> 'v \<Rightarrow> error option \<times> 'v)
     \<Rightarrow> 't Client \<Rightarrow> Context option \<Rightarrow> string \<Rightarrow> string \<Rightarrow> opts \<Rightarrow> 'v target \<Rightarrow> 't
     \<Rightarrow> ('v, 't) result" where
  "Client_get marshal decodeResponse decode c ctx' path apiKey opts v t =
     (case addOptions marshal path opts of
        Inl e \<Rightarrow> \<lparr>ret_response = None, ret_err = Some e, target = v, transport = t, closed = False\<rparr>
      | Inr path' \<Rightarrow>
          (case newRequest (\<lambda>b :: unit. Inr []) c ''GET'' path' None of
             Inl e \<Rightarrow> \<lparr>ret_response = None, ret_err = Some e, target = v, transport = t, closed = False\<rparr>
           | Inr req \<Rightarrow>
               (Client_do decodeResponse decode c ctx' (Header_Set ''X-SPACE-D-API-Key'' apiKey req) v t)
                 \<lparr>ret_response := None\<rparr>))"

subsection \<open>Channels (channel.go)\<close>

record 't OnlineChannel =
  client :: "'t Client"
  name :: string
  apiKey :: string

record 't PreviewChannel =
  client :: "'t Client"
  name :: string
  apiKey :: string
  state :: string

definition Client_OnlineChannel :: "'t Client \<Rightarrow> string \<Rightarrow> string \<Rightarrow> error + 't OnlineChannel" where
  "Client_OnlineChannel c name' apiKey' =
     (if name' = [] then Inl (ErrorString ''name seems to be an empty string'')
      else if apiKey' = [] then Inl (ErrorString ''apiKey seems to be an empty string'')
      else Inr \<lparr>OnlineChannel.client = c, OnlineChannel.name = name', OnlineChannel.apiKey = apiKey'\<rparr>)"


text \<open>\<open>fmt.Sprintf\<close> with \<open>%s\<close> verbs writes the strings in between the fixed text.\<close>

definition getOnlineEndpoint :: "string \<Rightarrow> string \<Rightarrow> string \<Rightarrow> string" where
  "getOnlineEndpoint spaceID method channel =
     ''/space/'' @ spaceID @ ''/online/'' @ method @ ''/'' @ channel"

definition getPreviewEndpoint :: "string \<Rightarrow> string \<Rightarrow> string \<Rightarrow> string \<Rightarrow> string" where
  "getPreviewEndpoint spaceID method channel state' =
     ''/space/'' @ spaceID @ ''/preview/'' @ state' @ ''/'' @ method @ ''/'' @ channel"

text \<open>
  \<open>Content\<close> and \<open>Search\<close>. \<open>config\<close> is a pointer: \<open>None\<close> is nil. The target is a fresh
  zero value of the response type, the parameter \<open>zero\<close>. The online channel hands the
  pointer on as it is; the preview channel dereferences it to build its own struct.
\<close>

definition optsPointer :: "('a \<Rightarrow> optsStruct) \<Rightarrow> 'a option \<Rightarrow> opts" where
  "optsPointer wrap config = (case config of None \<Rightarrow> NilPointer | Some cfg \<Rightarrow> Pointer (wrap cfg))"


definition OnlineChannel_Search ::
  "(PropFilters \<Rightarrow> error + string) \<Rightarrow> decodeResponse \<Rightarrow> (body \<Rightarrow> 'v \<Rightarrow> error option \<times> 'v) \<Rightarrow> 'v
     \<Rightarrow> 't OnlineChannel \<Rightarrow> Context option \<Rightarrow> SearchOptions option \<Rightarrow> 't \<Rightarrow> ('v, 't) result" where
  "OnlineChannel_Search marshal decodeResponse decode zero s ctx' config t =
     (let path = getOnlineEndpoint (Client.SpaceID (OnlineChannel.client s)) ''search/v2''
                   (OnlineChannel.name s)
      in Client_get marshal decodeResponse decode (OnlineChannel.client s) ctx' path
           (OnlineChannel.apiKey s) (optsPointer SearchOpts config) (Target zero) t)"

definition PreviewChannel_targetDate :: "'t PreviewChannel \<Rightarrow> string" where
  "PreviewChannel_targetDate s =
     (if \<not> IsZero (Client.TargetDate (client s))
      then Format (Client.TargetDate (client s)) RFC3339 else [])"

definition PreviewChannel_Content ::
  "(PropFilters \<Rightarrow> error + string) \<Rightarrow> decodeResponse \<Rightarrow> (body \<Rightarrow> 'v \<Rightarrow> error option \<times> 'v) \<Rightarrow> 'v
     \<Rightarrow> 't PreviewChannel \<Rightarrow> Context option \<Rightarrow> ContentOptions option \<Rightarrow> 't \<Rightarrow> ('v, 't) result go" where
  "PreviewChannel_Content marshal decodeResponse decode zero s ctx' config t =
     (let path = getPreviewEndpoint (Client.SpaceID (client s)) ''content'' (name s) (state s);
          targetDate = PreviewChannel_targetDate s
      in case config of
           None \<Rightarrow> Panic ''invalid memory address or nil pointer dereference''
         | Some cfg \<Rightarrow>
             Return (Client_get marshal decodeResponse decode (client s) ctx' path (apiKey s)
                       (Struct (PreviewContentParams cfg targetDate)) (Target zero) t))"

definition PreviewChannel_Search ::
  "(PropFilters \<Rightarrow> error + string) \<Rightarrow> decodeResponse \<Rightarrow> (body \<Rightarrow> 'v \<Rightarrow> error option \<times> 'v) \<Rightarrow> 'v
     \<Rightarrow> 't PreviewChannel \<Rightarrow> Context option \<Rightarrow> SearchOptions option \<Rightarrow> 't \<Rightarrow> ('v, 't) result go" where
  "PreviewChannel_Search marshal decodeResponse decode zero s ctx' config t =
     (let path = getPreviewEndpoint (Client.SpaceID (client s)) ''search/v2'' (name s) (state s);
          targetDate = PreviewChannel_targetDate s
      in case config of
           None \<Rightarrow> Panic ''invalid memory address or nil pointer dereference''
         | Some cfg \<Rightarrow>
             Return (Client_get marshal decodeResponse decode (client s) ctx' path (apiKey s)
                       (Struct (PreviewSearchParams cfg targetDate)) (Target zero) t))"

subsection \<open>Reading results\<close>

text \<open>The message of the \<open>*errorResponse\<close> that an error value is, if it is one.\<close>

definition errorMessage :: "error option \<Rightarrow> string option" where
  "errorMessage e = (case e of Some (APIError er) \<Rightarrow> Some (Message er) | _ \<Rightarrow> None)"

text \<open>
  The string that the members of a JSON object leave in \<open>Message\<close>: that of the last
  member whose key names the field and whose value is a string; \<open>m\<close> when there is none.
\<close>

fun messageOf :: "(string \<times> json) list \<Rightarrow> string \<Rightarrow> string" where
  "messageOf [] m = m"
| "messageOf ((key, v) # ms) m =
     messageOf ms (case v of JString s \<Rightarrow> (if findField key = Some FieldMessage then s else m) | _ \<Rightarrow> m)"

definition decodeMembers ::
  "decodeResponse \<Rightarrow> (string \<times> json) list \<Rightarrow> errorResponse \<Rightarrow> error option \<times> errorResponse" where
  "decodeMembers decodeResponse ms er = foldl (\<lambda>acc m. storeMember decodeResponse m acc) (None, er) ms"

subsection \<open>Concrete values for the examples\<close>


definition zeroTime :: Time where
  "zeroTime = \<lparr>IsZero = True, Format = (\<lambda>layout. ''0001-01-01T00:00:00Z'')\<rparr>"

definition exampleBaseURL :: URL where
  "exampleBaseURL = emptyURL\<lparr>Scheme := ''https'', URL.Host := ''api.contentchef.io'', Path := ''/''\<rparr>"

text \<open>Transports that keep a log of the requests they were given.\<close>

definition answering :: "http_Response \<Rightarrow> (http_Request list) transport" where
  "answering res = (\<lambda>log req. (Inr res, log @ [req]))"

definition failing :: "error \<Rightarrow> (http_Request list) transport" where
  "failing e = (\<lambda>log req. (Inl e, log @ [req]))"

definition exampleClient :: "'t transport \<Rightarrow> Time \<Rightarrow> 't Client" where
  "exampleClient h d =
     \<lparr>httpClient = h, Client.BaseURL = exampleBaseURL, Client.SpaceID = ''aSpace'',
      Client.TargetDate = d\<rparr>"

definition exampleRequest :: http_Request where
  "exampleRequest =
     \<lparr>Method = ''GET'', URL = exampleBaseURL, Header = [], http_Request.Body = None,
      http_Request.Host = ''api.contentchef.io'', ctx = Background\<rparr>"

definition plainResponse :: "int \<Rightarrow> string \<Rightarrow> http_Response" where
  "plainResponse code text = \<lparr>StatusCode = code, http_Response.Body = \<lparr>content = text, readErr = None\<rparr>\<rparr>"

text \<open>
  Stand-ins for the two decoding parameters: an \<open>http.Response\<close> decoder that accepts any
  members and changes nothing, and a target that keeps the text of the body.
\<close>

definition acceptMembers :: decodeResponse where
  "acceptMembers = (\<lambda>ms r. (None, r))"

definition keepText :: "body \<Rightarrow> string \<Rightarrow> error option \<times> string" where
  "keepText = (\<lambda>b v. (None, content b))"

definition noMarshal :: "PropFilters \<Rightarrow> error + string" where
  "noMarshal = (\<lambda>p. Inl (MarshalError ''unsupported value''))"

definition exampleOptions :: "string \<Rightarrow> string \<Rightarrow> (http_Request list) ClientOptions" where
  "exampleOptions base space =
     \<lparr>ClientOptions.BaseURL = base, ClientOptions.SpaceID = space, Client = None,
      ClientOptions.TargetDate = zeroTime\<rparr>"


definition exampleContentOptions :: ContentOptions where
  "exampleContentOptions = \<lparr>ContentOptions.LegacyMetadata = False, ContentOptions.PublicID = ''post-1''\<rparr>"



subsection \<open>Plain names and the URL of a request\<close>








section \<open>Properties\<close>

subsection \<open>Sort serialisation\<close>

lemma serializeSorting_loop_slots:
  "serializeSorting_loop (length done) s (done @ replicate (length s) [])
     = done @ map sortingSlot s"
proof (induction s arbitrary: "done")
  case Nil
  then show ?case by simp
next
  case (Cons field rest)
  have slot: "(done @ [] # replicate (length rest) [])[length done := v]
                = (done @ [v]) @ replicate (length rest) []" for v :: string
    by (simp add: list_update_append)
  have skip: "done @ [] # replicate (length rest) [] = (done @ [[]]) @ replicate (length rest) []"
    by simp
  show ?case
  proof (cases "length (FieldName field) = 0")
    case True
    have "serializeSorting_loop (length (done @ [[]])) rest ((done @ [[]]) @ replicate (length rest) [])
            = (done @ [[]]) @ map sortingSlot rest"
      by (rule Cons.IH)
    with True show ?thesis by (simp add: sortingSlot_def)
  next
    case False
    define v where "v = (if Ascending field then ''+'' else ''-'') @ TrimSpace (FieldName field)"
    have "serializeSorting_loop (length (done @ [v])) rest ((done @ [v]) @ replicate (length rest) [])
            = (done @ [v]) @ map sortingSlot rest"
      by (rule Cons.IH)
    with False show ?thesis
      by (simp add: sortingSlot_def v_def list_update_append Let_def)
  qed
qed

lemma serializeSorting_slots: "serializeSorting s = Join (map sortingSlot s) '',''"
  using serializeSorting_loop_slots [of "[]" s] by (simp add: serializeSorting_def)

text \<open>
  C1 (the code departs from the claim). An entry with an empty name leaves its slot empty,
  and the empty slot is still joined: the entry costs a comma. An entry whose name is
  white space only has a name of non-zero length, so it is not passed over and yields a
  bare sign.
\<close>

theorem serializeSorting_empty_slot_joined:
  "serializeSorting [\<lparr>FieldName = '''', Ascending = False\<rparr>,
                     \<lparr>FieldName = ''publicId'', Ascending = True\<rparr>] = '',+publicId''
   \<and> serializeSorting [\<lparr>FieldName = '' '', Ascending = True\<rparr>] = ''+''"
  by (simp add: serializeSorting_def TrimSpace_def isSpace_def)

subsection \<open>Error classification\<close>

lemma checkResponse_success_iff:
  "(checkResponse decodeResponse r = None) = (200 \<le> StatusCode r \<and> StatusCode r \<le> 299)"
  by (auto simp: checkResponse_def ReadAll_def Let_def split: prod.splits option.splits)

lemma storeMember_Message:
  "Message (snd (storeMember dr (key, v) (sv, er)))
     = (case v of JString s \<Rightarrow> (if findField key = Some FieldMessage then s else Message er)
                | _ \<Rightarrow> Message er)"
  by (cases "findField key"; cases v)
     (auto simp: storeMember_def Let_def split: field.splits prod.splits option.splits)

lemma foldl_storeMember_Message:
  "Message (snd (foldl (\<lambda>acc m. storeMember dr m acc) (sv, er) ms)) = messageOf ms (Message er)"
proof (induction ms arbitrary: sv er)
  case Nil
  then show ?case by simp
next
  case (Cons m ms)
  obtain key v where m: "m = (key, v)" by (cases m)
  obtain sv' er' where st: "storeMember dr (key, v) (sv, er) = (sv', er')"
    by (cases "storeMember dr (key, v) (sv, er)")
  have "Message er' = (case v of JString s \<Rightarrow> (if findField key = Some FieldMessage then s else Message er)
                                | _ \<Rightarrow> Message er)"
    using storeMember_Message [of dr key v sv er] st by simp
  with Cons.IH [of sv' er'] m st show ?case by simp
qed

lemma decodeMembers_Message:
  "Message (snd (decodeMembers dr ms er)) = messageOf ms (Message er)"
  by (simp add: decodeMembers_def foldl_storeMember_Message)

lemma json_Unmarshal_cases:
  "json_Unmarshal dr data er =
     (case json_parse data of
        None \<Rightarrow> (Some SyntaxError, er)
      | Some (JObject ms) \<Rightarrow> decodeMembers dr ms er
      | Some JNull \<Rightarrow> (None, er)
      | Some _ \<Rightarrow> (Some UnmarshalTypeError, er))"
  by (simp add: json_Unmarshal_def decodeMembers_def split: option.splits json.splits)

text \<open>
  C2, as amended. For every response with a status code outside 200..299, \<open>checkResponse\<close>
  returns an \<open>*errorResponse\<close> whose message is
  \<^item> empty, when the body is empty or could not be read;
  \<^item> the raw body text, when the body is not empty and \<open>json.Unmarshal\<close> into the error
    value fails: the body is not one JSON value, or it is a JSON value other than an
    object or \<open>null\<close>, or an object with a member of the wrong kind for its field;
  \<^item> otherwise what decoding leaves in \<open>Message\<close>: the string of the object's last member
    named \<open>message\<close>, and the empty string when the object has no such member or the body
    is \<open>null\<close>.
\<close>

theorem checkResponse_message:
  assumes "\<not> (200 \<le> StatusCode r \<and> StatusCode r \<le> 299)"
  shows "errorMessage (checkResponse dr r) =
           Some (let data = content (http_Response.Body r) in
                 if readErr (http_Response.Body r) \<noteq> None \<or> data = [] then []
                 else
                   (case json_parse data of
                      None \<Rightarrow> data
                    | Some (JObject ms) \<Rightarrow>
                        if fst (decodeMembers dr ms \<lparr>Response = Some r, Message = [], X = []\<rparr>) = None
                        then messageOf ms [] else data
                    | Some JNull \<Rightarrow> []
                    | Some _ \<Rightarrow> data))"
proof -
  let ?er = "\<lparr>Response = Some r, Message = [], X = []\<rparr>"
  let ?data = "content (http_Response.Body r)"
  show ?thesis
  proof (cases "readErr (http_Response.Body r) \<noteq> None \<or> ?data = []")
    case True
    with assms show ?thesis
      by (auto simp: checkResponse_def ReadAll_def errorMessage_def Let_def)
  next
    case False
    obtain e er' where u: "json_Unmarshal dr ?data ?er = (e, er')"
      by (cases "json_Unmarshal dr ?data ?er")
    have cr: "errorMessage (checkResponse dr r) = Some (if e = None then Message er' else ?data)"
      using assms False u
      by (auto simp: checkResponse_def ReadAll_def errorMessage_def Let_def split: option.splits)
    show ?thesis
    proof (cases "json_parse ?data")
      case None
      with u cr False show ?thesis by (auto simp: json_Unmarshal_cases Let_def)
    next
      case (Some j)
      show ?thesis
      proof (cases j)
        case (JObject ms)
        with Some u have d: "decodeMembers dr ms ?er = (e, er')"
          by (simp add: json_Unmarshal_cases)
        have "Message er' = messageOf ms []"
          using decodeMembers_Message [of dr ms ?er] d by simp
        with cr d Some JObject False show ?thesis by (auto simp: Let_def)
      qed (use Some u cr False in \<open>auto simp: json_Unmarshal_cases Let_def\<close>)
    qed
  qed
qed

text \<open>
  The three bodies of the package's tests and of the specification: a JSON object with a
  message, plain text, and nothing; and a message whose one byte is not UTF-8, which
  \<open>json.Unmarshal\<close> decodes to U+FFFD.
\<close>

theorem checkResponse_message_witness:
  \<open>errorMessage (checkResponse acceptMembers
       (plainResponse 400 ''{"message":"m", "errors": [{"resource": "r", "field": "f", "code": "c"}]}''))
     = Some ''m''
   \<and> errorMessage (checkResponse acceptMembers (plainResponse 400 ''Bad Request'')) = Some ''Bad Request''
   \<and> errorMessage (checkResponse acceptMembers (plainResponse 400 [])) = Some []
   \<and> errorMessage (checkResponse acceptMembers (plainResponse 400 (''{"message":"'' @ [CHR 0xFF] @ ''"}'')))
     = Some [CHR 0xEF, CHR 0xBF, CHR 0xBD]\<close>
proof -
  let ?json = \<open>plainResponse 400 ''{"message":"m", "errors": [{"resource": "r", "field": "f", "code": "c"}]}''\<close>
  let ?text = "plainResponse 400 ''Bad Request''"
  let ?none = "plainResponse 400 []"
  let ?utf8 = \<open>plainResponse 400 (''{"message":"'' @ [CHR 0xFF] @ ''"}'')\<close>
  let ?rhs = "\<lambda>r. (let data = content (http_Response.Body r) in
                 if readErr (http_Response.Body r) \<noteq> None \<or> data = [] then []
                 else
                   (case json_parse data of
                      None \<Rightarrow> data
                    | Some (JObject ms) \<Rightarrow>
                        if fst (decodeMembers acceptMembers ms \<lparr>Response = Some r, Message = [], X = []\<rparr>) = None
                        then messageOf ms [] else data
                    | Some JNull \<Rightarrow> []
                    | Some _ \<Rightarrow> data))"
  have status: "\<not> (200 \<le> StatusCode (plainResponse 400 b) \<and> StatusCode (plainResponse 400 b) \<le> 299)" for b
    by (simp add: plainResponse_def)
  have 1: "?rhs ?json = ''m''" by code_simp
  have 2: "?rhs ?text = ''Bad Request''" by code_simp
  have 3: "?rhs ?none = []" by code_simp
  have 4: "?rhs ?utf8 = [CHR 0xEF, CHR 0xBF, CHR 0xBD]" by code_simp
  have "errorMessage (checkResponse acceptMembers ?json) = Some (?rhs ?json)"
    and "errorMessage (checkResponse acceptMembers ?text) = Some (?rhs ?text)"
    and "errorMessage (checkResponse acceptMembers ?none) = Some (?rhs ?none)"
    and "errorMessage (checkResponse acceptMembers ?utf8) = Some (?rhs ?utf8)"
    by (rule checkResponse_message [OF status])+
  then show ?thesis
    by (simp only: 1 2 3 4 simp_thms)
qed

text \<open>
  C2, as the claim states it, fails in two of its cases. A body that is valid JSON but has
  no message member is not one of the two cases the claim gives an empty or a decoded
  message for, so the claim has the message equal the raw body: the body \<open>{}\<close> decodes
  without an error, and the message stays empty. A body that parses as JSON and contains
  a message member has, by the claim, that member as the message: in
  \<open>{"message":"m","response":5}\<close> the member \<open>response\<close> is a number where the field is a
  struct, \<open>json.Unmarshal\<close> returns an error, and the message is the raw body.
\<close>

theorem checkResponse_claimed_cases_fail:
  \<open>errorMessage (checkResponse acceptMembers (plainResponse 400 ''{}'')) = Some []
   \<and> errorMessage (checkResponse acceptMembers (plainResponse 400 ''{}'')) \<noteq> Some ''{}''
   \<and> errorMessage (checkResponse acceptMembers (plainResponse 400 ''{"message":"m","response":5}''))
     = Some ''{"message":"m","response":5}''
   \<and> errorMessage (checkResponse acceptMembers (plainResponse 400 ''{"message":"m","response":5}''))
     \<noteq> Some ''m''\<close>
  by code_simp

subsection \<open>Construction of the client\<close>

lemma url_Parse_example_base: "url_Parse ''https://api.contentchef.io/'' = Inr exampleBaseURL"
  by code_simp

lemma url_Parse_host_only:
  "url_Parse ''api.contentchef.io'' = Inr (emptyURL\<lparr>Path := ''api.contentchef.io''\<rparr>)"
  by code_simp

text \<open>
  C3, as amended. \<open>NewClient\<close> returns an error exactly when \<open>url.Parse\<close> rejects the base
  URL string or the space identifier is empty. Both checks are made at construction: a
  client that was constructed holds the URL that \<open>url.Parse\<close> made of the base URL string,
  and a space identifier that is not empty.
\<close>

theorem NewClient_validation:
  "((\<exists>e. NewClient DefaultClient opt = Inl e)
      = ((\<exists>e. url_Parse (ClientOptions.BaseURL opt) = Inl e) \<or> ClientOptions.SpaceID opt = []))
   \<and> (\<forall>c. NewClient DefaultClient opt = Inr c \<longrightarrow>
          url_Parse (ClientOptions.BaseURL opt) = Inr (Client.BaseURL c)
          \<and> Client.SpaceID c = ClientOptions.SpaceID opt
          \<and> Client.SpaceID c \<noteq> [])"
  by (cases "url_Parse (ClientOptions.BaseURL opt)") (auto simp: NewClient_def)

theorem NewClient_validation_witness:
  "NewClient (failing EOF) (exampleOptions ''https://api.contentchef.io/'' ''aSpace'')
     = Inr (exampleClient (failing EOF) zeroTime)
   \<and> url_Parse ''https://api.contentchef.io/''
     = Inr (Client.BaseURL (exampleClient (failing EOF) zeroTime))
   \<and> Client.SpaceID (exampleClient (failing EOF) zeroTime) \<noteq> []
   \<and> (\<exists>e. NewClient (failing EOF) (exampleOptions ''https://api.contentchef.io/'' []) = Inl e)
   \<and> (\<exists>e. NewClient (failing EOF) (exampleOptions ''http://host:port/'' ''aSpace'') = Inl e)"
proof -
  have made: "NewClient (failing EOF) (exampleOptions ''https://api.contentchef.io/'' ''aSpace'')
                = Inr (exampleClient (failing EOF) zeroTime)"
    by (simp add: NewClient_def exampleOptions_def exampleClient_def url_Parse_example_base)
  have "url_Parse ''http://host:port/''
          = Inl (URLError ''parse'' ''http://host:port/'' (ErrorString ''invalid port after host''))"
    by code_simp
  then have bad: "\<exists>e. url_Parse ''http://host:port/'' = Inl e" ..
  show ?thesis
    using made bad
      NewClient_validation [of "failing EOF" "exampleOptions ''https://api.contentchef.io/'' ''aSpace''"]
      NewClient_validation [of "failing EOF" "exampleOptions ''https://api.contentchef.io/'' []"]
      NewClient_validation [of "failing EOF" "exampleOptions ''http://host:port/'' ''aSpace''"]
    by (simp add: exampleOptions_def)
qed

text \<open>
  C3, as the claim states it, fails: the base URL is only parsed, and \<open>url.Parse\<close> accepts
  references that are not absolute. A base URL written without its scheme is taken as a
  relative path, and the client is constructed with a base URL that is not absolute.
\<close>

theorem NewClient_relative_base:
  "(case NewClient (failing EOF) (exampleOptions ''api.contentchef.io'' ''aSpace'') of
      Inl e \<Rightarrow> False
    | Inr c \<Rightarrow> \<not> IsAbs (Client.BaseURL c))"
  by (simp add: NewClient_def exampleOptions_def url_Parse_host_only IsAbs_def emptyURL_def)

subsection \<open>The preview channel\<close>









































text \<open>
  With a nil options pointer the two channels part ways, whatever the channel: the online
  channel passes the nil pointer on, and \<open>addOptions\<close> leaves the path as it is; the preview
  channel dereferences the pointer to build its struct.
\<close>

lemma PreviewChannel_nil_options:
  "PreviewChannel_Content marshal dr dec zero s ctx' None t
     = Panic ''invalid memory address or nil pointer dereference''
   \<and> PreviewChannel_Search marshal dr dec zero s ctx' None t
     = Panic ''invalid memory address or nil pointer dereference''
   \<and> optsPointer ContentOpts None = NilPointer"
  by (simp add: PreviewChannel_Content_def PreviewChannel_Search_def optsPointer_def)

subsection \<open>Executing a request\<close>

text \<open>
  C5. When the transport returns a response, \<open>do\<close> takes exactly the status codes 200 to
  299 as success. For a status code from 200 to 299 \<open>do\<close> goes on to the body: with no
  target it returns no error, with a writer it copies the body and returns no error, and
  with any other target it decodes the body into it and returns the decoder's error, or no
  error when that is \<open>io.EOF\<close>. For any other status code it returns the error
  \<open>checkResponse\<close> makes of the response, an \<open>*errorResponse\<close>, and the target is as it
  was: nothing is decoded into it. Either way the response is returned.
\<close>

theorem do_status_classification:
  assumes "httpClient c t (req\<lparr>ctx := cx\<rparr>) = (Inr res, t')"
  shows "(checkResponse decodeResponse res = None)
           = (200 \<le> StatusCode res \<and> StatusCode res \<le> 299)
         \<and> (200 \<le> StatusCode res \<and> StatusCode res \<le> 299 \<longrightarrow>
              ret_err (Client_do decodeResponse decode c (Some cx) req v t)
                = (case v of
                     NilTarget \<Rightarrow> None
                   | Writer w \<Rightarrow> None
                   | Target x \<Rightarrow>
                       (let decErr = fst (Decoder_Decode decode (http_Response.Body res) x)
                        in if decErr = Some EOF then None else decErr))
              \<and> target (Client_do decodeResponse decode c (Some cx) req v t)
                = (case v of
                     NilTarget \<Rightarrow> NilTarget
                   | Writer w \<Rightarrow> Writer (w @ content (http_Response.Body res))
                   | Target x \<Rightarrow> Target (snd (Decoder_Decode decode (http_Response.Body res) x))))
         \<and> (\<not> (200 \<le> StatusCode res \<and> StatusCode res \<le> 299) \<longrightarrow>
              ret_err (Client_do decodeResponse decode c (Some cx) req v t)
                = checkResponse decodeResponse res
              \<and> (\<exists>er. ret_err (Client_do decodeResponse decode c (Some cx) req v t)
                         = Some (APIError er))
              \<and> target (Client_do decodeResponse decode c (Some cx) req v t) = v)
         \<and> ret_response (Client_do decodeResponse decode c (Some cx) req v t) = Some res"
proof -
  have iff: "(checkResponse decodeResponse res = None)
               = (200 \<le> StatusCode res \<and> StatusCode res \<le> 299)"
    by (rule checkResponse_success_iff)
  have api: "\<exists>er. checkResponse decodeResponse res = Some (APIError er)"
    if "\<not> (200 \<le> StatusCode res \<and> StatusCode res \<le> 299)"
    using that by (auto simp: checkResponse_def ReadAll_def Let_def split: prod.splits option.splits)
  show ?thesis
  proof (cases "200 \<le> StatusCode res \<and> StatusCode res \<le> 299")
    case True
    with iff have ok: "checkResponse decodeResponse res = None" by simp
    show ?thesis
    proof (cases v)
      case NilTarget
      with assms True ok show ?thesis by (simp add: Client_do_def)
    next
      case (Writer w)
      with assms True ok show ?thesis by (simp add: Client_do_def)
    next
      case (Target x)
      obtain decErr x' where d: "Decoder_Decode decode (http_Response.Body res) x = (decErr, x')"
        by (cases "Decoder_Decode decode (http_Response.Body res) x")
      with assms True ok Target show ?thesis by (simp add: Client_do_def Let_def)
    qed
  next
    case False
    from api [OF False] obtain er where er: "checkResponse decodeResponse res = Some (APIError er)" ..
    with assms False iff show ?thesis
      by (auto simp: Client_do_def)
  qed
qed

theorem do_status_classification_witness:
  "ret_err (Client_do acceptMembers keepText
              (exampleClient (answering (plainResponse 404 ''Not Found'')) zeroTime)
              (Some Background) exampleRequest (Target ''before'') [])
     = Some (APIError \<lparr>Response = Some (plainResponse 404 ''Not Found''),
                        Message = ''Not Found'', X = []\<rparr>)
   \<and> target (Client_do acceptMembers keepText
              (exampleClient (answering (plainResponse 404 ''Not Found'')) zeroTime)
              (Some Background) exampleRequest (Target ''before'') [])
     = Target ''before''
   \<and> checkResponse acceptMembers (plainResponse 299 ''Not Found'') = None
   \<and> ret_err (Client_do acceptMembers keepText
              (exampleClient (answering (plainResponse 200 ''ok'')) zeroTime)
              (Some Background) exampleRequest (Target ''before'') [])
     = None
   \<and> target (Client_do acceptMembers keepText
              (exampleClient (answering (plainResponse 200 ''ok'')) zeroTime)
              (Some Background) exampleRequest (Target ''before'') [])
     = Target ''ok''"
proof -
  let ?c = "exampleClient (answering (plainResponse 404 ''Not Found'')) zeroTime"
  let ?c2 = "exampleClient (answering (plainResponse 200 ''ok'')) zeroTime"
  have h: "httpClient ?c [] (exampleRequest\<lparr>ctx := Background\<rparr>)
             = (Inr (plainResponse 404 ''Not Found''), [exampleRequest\<lparr>ctx := Background\<rparr>])"
    by (simp add: exampleClient_def answering_def)
  have h2: "httpClient ?c2 [] (exampleRequest\<lparr>ctx := Background\<rparr>)
             = (Inr (plainResponse 200 ''ok''), [exampleRequest\<lparr>ctx := Background\<rparr>])"
    by (simp add: exampleClient_def answering_def)
  have s: "\<not> (200 \<le> StatusCode (plainResponse 404 ''Not Found'')
              \<and> StatusCode (plainResponse 404 ''Not Found'') \<le> 299)"
    by (simp add: plainResponse_def)
  have s2: "200 \<le> StatusCode (plainResponse 200 ''ok'') \<and> StatusCode (plainResponse 200 ''ok'') \<le> 299"
    by (simp add: plainResponse_def)
  have e: "checkResponse acceptMembers (plainResponse 404 ''Not Found'')
             = Some (APIError \<lparr>Response = Some (plainResponse 404 ''Not Found''),
                                Message = ''Not Found'', X = []\<rparr>)"
    by code_simp
  have ok: "checkResponse acceptMembers (plainResponse 299 ''Not Found'') = None"
    by code_simp
  have d: "Decoder_Decode keepText (http_Response.Body (plainResponse 200 ''ok'')) ''before''
             = (None, ''ok'')"
    by code_simp
  show ?thesis
    using do_status_classification [OF h, where decodeResponse = acceptMembers
            and decode = keepText and v = "Target ''before''"]
          do_status_classification [OF h2, where decodeResponse = acceptMembers
            and decode = keepText and v = "Target ''before''"] s s2 e ok d
    by simp
qed

text \<open>
  C6. When the transport returns a response with a status code from 200 to 299 and an
  empty body, and the target is one that JSON is decoded into, \<open>do\<close> returns no error and
  the target is as it was (at its zero value, when it was fresh).
\<close>

theorem do_empty_body:
  assumes "httpClient c t (req\<lparr>ctx := cx\<rparr>) = (Inr res, t')"
    and "200 \<le> StatusCode res" and "StatusCode res \<le> 299"
    and "content (http_Response.Body res) = []" and "readErr (http_Response.Body res) = None"
  shows "ret_err (Client_do decodeResponse decode c (Some cx) req (Target x) t) = None
         \<and> target (Client_do decodeResponse decode c (Some cx) req (Target x) t) = Target x"
proof -
  have "checkResponse decodeResponse res = None"
    using assms(2,3) by (simp add: checkResponse_success_iff)
  moreover have "Decoder_Decode decode (http_Response.Body res) x = (Some EOF, x)"
    using assms(4,5) by (simp add: Decoder_Decode_def)
  ultimately show ?thesis
    using assms(1) by (simp add: Client_do_def)
qed

theorem do_empty_body_witness:
  "ret_err (Client_do acceptMembers keepText
              (exampleClient (answering (plainResponse 200 [])) zeroTime)
              (Some Background) exampleRequest (Target []) []) = None
   \<and> target (Client_do acceptMembers keepText
              (exampleClient (answering (plainResponse 200 [])) zeroTime)
              (Some Background) exampleRequest (Target []) []) = Target []"
proof -
  let ?c = "exampleClient (answering (plainResponse 200 [])) zeroTime"
  have h: "httpClient ?c [] (exampleRequest\<lparr>ctx := Background\<rparr>)
             = (Inr (plainResponse 200 []), [exampleRequest\<lparr>ctx := Background\<rparr>])"
    by (simp add: exampleClient_def answering_def)
  show ?thesis
    using do_empty_body [OF h, where decodeResponse = acceptMembers and decode = keepText
            and x = "[]"]
    by (simp add: plainResponse_def)
qed

text \<open>
  C7. When the transport returns an error and the context is done at that moment, \<open>do\<close>
  returns what the context's \<open>Err\<close> returns; when the context is not done, it returns the
  transport's error as it is. Either way there is no response and the target is as it was.
\<close>

theorem do_transport_error:
  assumes "httpClient c t (req\<lparr>ctx := cx\<rparr>) = (Inl e, t')"
  shows "ret_err (Client_do decodeResponse decode c (Some cx) req v t)
           = (if Done cx then Err cx else Some e)
         \<and> ret_response (Client_do decodeResponse decode c (Some cx) req v t) = None
         \<and> target (Client_do decodeResponse decode c (Some cx) req v t) = v"
  using assms by (simp add: Client_do_def)

theorem do_transport_error_witness:
  "ret_err (Client_do acceptMembers keepText (exampleClient (failing (TransportError ''connection refused'')) zeroTime)
       (Some \<lparr>Done = True, Err = Some Canceled\<rparr>) exampleRequest (Target []) []) = Some Canceled
   \<and> ret_err (Client_do acceptMembers keepText (exampleClient (failing (TransportError ''connection refused'')) zeroTime)
       (Some Background) exampleRequest (Target []) []) = Some (TransportError ''connection refused'')"
proof -
  let ?c = "exampleClient (failing (TransportError ''connection refused'')) zeroTime"
  have h: "httpClient ?c [] (exampleRequest\<lparr>ctx := cx\<rparr>)
             = (Inl (TransportError ''connection refused''), [exampleRequest\<lparr>ctx := cx\<rparr>])" for cx
    by (simp add: exampleClient_def failing_def)
  show ?thesis
    using do_transport_error [where decodeResponse = acceptMembers and decode = keepText
            and v = "Target []" and cx = "\<lparr>Done = True, Err = Some Canceled\<rparr>", OF h]
          do_transport_error [where decodeResponse = acceptMembers and decode = keepText
            and v = "Target []" and cx = Background, OF h]
    by (simp add: Background_def)
qed

text \<open>
  C8. Called with a nil context, \<open>do\<close> returns an error at once: there is no response, the
  target is as it was, and the transport's state comes back as it was given, whatever the
  transport is, so the transport was not called.
\<close>

theorem do_nil_context:
  "Client_do decodeResponse decode c None req v t =
     \<lparr>ret_response = None, ret_err = Some (ErrorString ''context must be non-nil''),
      target = v, transport = t, closed = False\<rparr>"
  by (simp add: Client_do_def)

theorem do_nil_context_witness:
  "ret_err (Client_do acceptMembers keepText
              (exampleClient (answering (plainResponse 200 ''ok'')) zeroTime)
              None exampleRequest (Target ''before'') [])
     = Some (ErrorString ''context must be non-nil'')
   \<and> transport (Client_do acceptMembers keepText
              (exampleClient (answering (plainResponse 200 ''ok'')) zeroTime)
              None exampleRequest (Target ''before'') []) = []"
  using do_nil_context [of acceptMembers keepText
          "exampleClient (answering (plainResponse 200 ''ok'')) zeroTime"
          exampleRequest "Target ''before''" "[]"]
  by simp

subsection \<open>Query encoding\<close>

text \<open>
  C9, as amended. When the options value is a nil pointer, \<open>addOptions\<close> succeeds and
  returns the path it was given, unchanged, for every path. When \<open>opts\<close> holds no value at
  all (an untyped \<open>nil\<close>), it is not a pointer: the path is parsed, and either the parse
  error is returned or the URL is written out again with an empty query.
\<close>

theorem addOptions_nil_pointer:
  "addOptions marshal path NilPointer = Inr path
   \<and> addOptions marshal path NilInterface
       = (case url_Parse path of
            Inl e \<Rightarrow> Inl e
          | Inr u \<Rightarrow> Inr (URL_String (u\<lparr>RawQuery := []\<rparr>)))"
  by (simp add: addOptions_def Values_Encode_def Values_params_def split: sum.splits)

theorem addOptions_nil_pointer_witness:
  "addOptions noMarshal ''/space/aSpace/online/content/foo?already=here#frag'' NilPointer
     = Inr ''/space/aSpace/online/content/foo?already=here#frag''
   \<and> addOptions noMarshal ''%zz not a URL'' NilPointer = Inr ''%zz not a URL''
   \<and> addOptions noMarshal ''foo'' NilInterface = Inr ''foo''"
proof -
  have p: "url_Parse ''foo'' = Inr (emptyURL\<lparr>Path := ''foo''\<rparr>)"
    by code_simp
  have s: "URL_String (emptyURL\<lparr>Path := ''foo'', RawQuery := []\<rparr>) = ''foo''"
    by code_simp
  show ?thesis
    using addOptions_nil_pointer [of noMarshal "''/space/aSpace/online/content/foo?already=here#frag''"]
          addOptions_nil_pointer [of noMarshal "''%zz not a URL''"]
          addOptions_nil_pointer [of noMarshal "''foo''"] p s
    by simp
qed

text \<open>
  C9, as the claim states it, fails: an absent options value is not a nil pointer, and the
  path does not come back unchanged. A query that the path came with is dropped, a space
  in the path is escaped, and a path that \<open>url.Parse\<close> rejects gives an error.
\<close>

theorem addOptions_absent_value:
  "addOptions noMarshal ''foo?x=1'' NilInterface = Inr ''foo''
   \<and> addOptions noMarshal ''foo?x=1'' NilInterface \<noteq> Inr ''foo?x=1''
   \<and> addOptions noMarshal ''/a b'' NilInterface = Inr ''/a%20b''
   \<and> addOptions noMarshal ''%zz'' NilInterface
       = Inl (URLError ''parse'' ''%zz'' (EscapeError ''%zz''))"
  by code_simp

lemma EscapedPath_RawQuery: "EscapedPath (u\<lparr>RawQuery := q\<rparr>) = EscapedPath u"
  by (simp add: EscapedPath_def)

lemma URL_authority_RawQuery: "URL_authority (u\<lparr>RawQuery := q\<rparr>) = URL_authority u"
  by (simp add: URL_authority_def)

lemma URL_hier_RawQuery: "URL_hier (u\<lparr>RawQuery := q\<rparr>) = URL_hier u"
  unfolding URL_hier_def EscapedPath_RawQuery URL_authority_RawQuery by simp

text \<open>
  C10. When the path parses and the options, not a nil pointer, encode to the values \<open>qs\<close>,
  \<open>addOptions\<close> returns the URL of the path with its query set to the encoding of \<open>qs\<close>:
  the text before the query, then \<open>?\<close> and the encoding, then the fragment. The query the
  path came with is not part of the result: a path that parses to the same URL but for
  its query gives the same result.
\<close>

theorem addOptions_replaces_query:
  assumes "url_Parse path = Inr u" and "opts \<noteq> NilPointer"
    and "query_Values marshal opts = Inr qs"
  shows "addOptions marshal path opts
           = Inr (URL_hier u
                  @ (if ForceQuery u \<or> Values_Encode qs \<noteq> [] then ''?'' @ Values_Encode qs else [])
                  @ (if Fragment u \<noteq> [] then ''#'' @ escape (Fragment u) encodeFragment else []))
         \<and> (\<forall>path' old. url_Parse path' = Inr (u\<lparr>RawQuery := old\<rparr>) \<longrightarrow>
                addOptions marshal path' opts = addOptions marshal path opts)"
  using assms by (simp add: addOptions_def URL_String_def URL_hier_RawQuery)

theorem addOptions_replaces_query_witness:
  "addOptions noMarshal ''/something?old=1'' (Pointer (ContentOpts exampleContentOptions))
     = Inr ''/something?publicId=post-1''
   \<and> addOptions noMarshal ''/something'' (Pointer (ContentOpts exampleContentOptions))
     = addOptions noMarshal ''/something?old=1'' (Pointer (ContentOpts exampleContentOptions))"
proof -
  let ?u = "emptyURL\<lparr>Path := ''/something'', RawQuery := ''old=1''\<rparr>"
  let ?qs = "[(''publicId'', [''post-1''])]"
  have p: "url_Parse ''/something?old=1'' = Inr ?u"
    by code_simp
  have p': "url_Parse ''/something'' = Inr (?u\<lparr>RawQuery := []\<rparr>)"
    by code_simp
  have n: "Pointer (ContentOpts exampleContentOptions) \<noteq> NilPointer"
    by simp
  have q: "query_Values noMarshal (Pointer (ContentOpts exampleContentOptions)) = Inr ?qs"
    by code_simp
  have r: "URL_hier ?u
             @ (if ForceQuery ?u \<or> Values_Encode ?qs \<noteq> [] then ''?'' @ Values_Encode ?qs else [])
             @ (if Fragment ?u \<noteq> [] then ''#'' @ escape (Fragment ?u) encodeFragment else [])
           = ''/something?publicId=post-1''"
    by code_simp
  note a = addOptions_replaces_query [OF p n q]
  from a have "addOptions noMarshal ''/something?old=1'' (Pointer (ContentOpts exampleContentOptions))
                 = Inr ''/something?publicId=post-1''"
    by (simp only: r)
  moreover from a p' have "addOptions noMarshal ''/something'' (Pointer (ContentOpts exampleContentOptions))
     = addOptions noMarshal ''/something?old=1'' (Pointer (ContentOpts exampleContentOptions))"
    by blast
  ultimately show ?thesis by (rule conjI)
qed


end
